theory Spec2Isabelle
  imports Complex_Main "HOL-Library.AList"
begin

section \<open>JavaScript values\<close>

text \<open>
  A JavaScript number is modelled by its exact value: a rational, one of the two
  infinities, or NaN. A number read from a string is rounded to the nearest double
  (\<open>to_double\<close> below). The only arithmetic of the program is the subtraction of an item
  count from the limit, which is exact for every limit below \<open>2 ^ 53\<close>, fractional or
  not, and is left unrounded; comparisons are exact. Negative zero is identified with
  zero.
\<close>

datatype jsnum = NaN | NInf | Fin rat | PInf

text \<open>
  The values the program passes around: what \<open>JSON.parse\<close> returns, the object literals
  the program builds from it, and \<open>undefined\<close>. Objects are association lists in
  insertion order, read through \<open>map_of\<close>. Strings are lists of 8-bit code units.
\<close>

datatype json =
    JUndefined
  | JNull
  | JBool bool
  | JNum jsnum
  | JStr string
  | JArr "json list"
  | JObj "(string \<times> json) list"

datatype error =
    Error string
  | TypeError string
  | ZodError
  | FetchError

text \<open>The value of \<open>x[k]\<close> for an own property of an object literal; \<open>undefined\<close> if absent.\<close>

definition member :: "(string \<times> json) list \<Rightarrow> string \<Rightarrow> json" where
  "member kvs k = (case map_of kvs k of None \<Rightarrow> JUndefined | Some v \<Rightarrow> v)"

text \<open>
  Property access \<open>x.k\<close> and \<open>x?.k\<close>. The program reads properties with a plain dot
  only from values that a schema has validated as objects, so the \<open>TypeError\<close> of a
  read from \<open>undefined\<close> or \<open>null\<close> cannot happen and both forms are one function.
\<close>

definition getprop :: "json \<Rightarrow> string \<Rightarrow> json" where
  "getprop x k = (case x of JObj kvs \<Rightarrow> member kvs k | _ \<Rightarrow> JUndefined)"

fun path :: "json \<Rightarrow> string list \<Rightarrow> json" where
  "path x [] = x"
| "path x (k # ks) = path (getprop x k) ks"

text \<open>The test \<open>k in x\<close>, applied by the program to objects only.\<close>

definition has_key :: "string \<Rightarrow> json \<Rightarrow> bool" where
  "has_key k x = (case x of JObj kvs \<Rightarrow> k \<in> set (map fst kvs) | _ \<Rightarrow> False)"

text \<open>The elements of an array; the program iterates only over validated arrays.\<close>

definition elems :: "json \<Rightarrow> json list" where
  "elems x = (case x of JArr xs \<Rightarrow> xs | _ \<Rightarrow> [])"

text \<open>JavaScript truthiness of a value (\<open>!!x\<close>).\<close>

fun truthy :: "json \<Rightarrow> bool" where
  "truthy JUndefined = False"
| "truthy JNull = False"
| "truthy (JBool b) = b"
| "truthy (JNum n) = (n \<noteq> NaN \<and> n \<noteq> Fin 0)"
| "truthy (JStr s) = (s \<noteq> [])"
| "truthy (JArr _) = True"
| "truthy (JObj _) = True"

text \<open>\<open>a || b\<close> on values.\<close>

definition js_or :: "json \<Rightarrow> json \<Rightarrow> json" where
  "js_or a b = (if truthy a then a else b)"

subsection \<open>Numbers\<close>

fun num_less :: "jsnum \<Rightarrow> jsnum \<Rightarrow> bool" where
  "num_less (Fin a) (Fin b) = (a < b)"
| "num_less (Fin _) PInf = True"
| "num_less NInf (Fin _) = True"
| "num_less NInf PInf = True"
| "num_less _ _ = False"

fun num_le :: "jsnum \<Rightarrow> jsnum \<Rightarrow> bool" where
  "num_le NaN _ = False"
| "num_le _ NaN = False"
| "num_le a b = (a = b \<or> num_less a b)"

fun num_minus :: "jsnum \<Rightarrow> jsnum \<Rightarrow> jsnum" where
  "num_minus (Fin a) (Fin b) = Fin (a - b)"
| "num_minus NaN _ = NaN"
| "num_minus _ NaN = NaN"
| "num_minus PInf PInf = NaN"
| "num_minus NInf NInf = NaN"
| "num_minus PInf _ = PInf"
| "num_minus NInf _ = NInf"
| "num_minus (Fin _) PInf = NInf"
| "num_minus (Fin _) NInf = PInf"

fun num_neg :: "jsnum \<Rightarrow> jsnum" where
  "num_neg NaN = NaN"
| "num_neg NInf = PInf"
| "num_neg PInf = NInf"
| "num_neg (Fin a) = Fin (- a)"

definition of_count :: "nat \<Rightarrow> jsnum" where
  "of_count n = Fin (of_nat n)"

text \<open>
  Rounding of an exact value to the nearest IEEE 754 binary64 number, ties to even:
  53 significant bits, the least exponent -1022 (below it the spacing stays \<open>2 ^ -1074\<close>),
  and overflow to an infinity from \<open>2 ^ 1024\<close> on.
\<close>

fun bit_length :: "nat \<Rightarrow> nat" where
  "bit_length n = (if n = 0 then 0 else Suc (bit_length (n div 2)))"

definition pow2 :: "int \<Rightarrow> rat" where
  "pow2 e = (if 0 \<le> e then 2 ^ nat e else 1 / 2 ^ nat (- e))"

text \<open>The exponent \<open>e\<close> with \<open>2 ^ e \<le> q < 2 ^ (e + 1)\<close>, for a positive \<open>q\<close>.\<close>

definition floor_log2 :: "rat \<Rightarrow> int" where
  "floor_log2 q =
     (let e0 = int (bit_length (nat (fst (quotient_of q))))
               - int (bit_length (nat (snd (quotient_of q))))
      in if pow2 e0 \<le> q then e0 else e0 - 1)"

definition round_half_even :: "rat \<Rightarrow> int" where
  "round_half_even r =
     (let f = \<lfloor>r\<rfloor>; d = r - of_int f in
      if d < 1 / 2 then f
      else if 1 / 2 < d then f + 1
      else if even f then f else f + 1)"

definition round_positive :: "rat \<Rightarrow> jsnum" where
  "round_positive q =
     (let e = max (floor_log2 q) (- 1022);
          quantum = pow2 (e - 52);
          v = of_int (round_half_even (q / quantum)) * quantum
      in if pow2 1024 \<le> v then PInf else Fin v)"

definition to_double :: "rat \<Rightarrow> jsnum" where
  "to_double q =
     (if q = 0 then Fin 0
      else if q < 0 then num_neg (round_positive (- q))
      else round_positive q)"

text \<open>
  \<open>Number(s)\<close> for a string \<open>s\<close> (StringToNumber of ECMAScript): surrounding white
  space is dropped, the empty string is 0, a decimal literal with optional sign,
  fraction and exponent or a binary, octal or hexadecimal integer literal is its value
  rounded to a double, and everything else is NaN.
\<close>

definition hexVal :: "char \<Rightarrow> nat" where
  "hexVal c =
     (let n = (of_char c :: nat) in
      if 48 \<le> n \<and> n \<le> 57 then n - 48
      else if 97 \<le> n \<and> n \<le> 102 then n - 87
      else if 65 \<le> n \<and> n \<le> 70 then n - 55
      else 16)"

definition isDigit :: "char \<Rightarrow> bool" where
  "isDigit c = (hexVal c < 10)"

definition radix_value :: "nat \<Rightarrow> string \<Rightarrow> nat" where
  "radix_value b s = foldl (\<lambda>n c. b * n + hexVal c) 0 s"

definition radix_literal :: "nat \<Rightarrow> string \<Rightarrow> jsnum" where
  "radix_literal b s =
     (if s \<noteq> [] \<and> list_all (\<lambda>c. hexVal c < b) s then to_double (of_nat (radix_value b s))
      else NaN)"

definition StrWhiteSpaceChar :: "char \<Rightarrow> bool" where
  "StrWhiteSpaceChar c = ((of_char c :: nat) \<in> {9, 10, 11, 12, 13, 32, 160})"

definition trim :: "string \<Rightarrow> string" where
  "trim s = rev (dropWhile StrWhiteSpaceChar (rev (dropWhile StrWhiteSpaceChar s)))"

definition pow10 :: "int \<Rightarrow> rat" where
  "pow10 e = (if 0 \<le> e then 10 ^ nat e else 1 / 10 ^ nat (- e))"

text \<open>The rest of a decimal literal after its mantissa: nothing, or an exponent part.\<close>

definition ExponentPart :: "string \<Rightarrow> int option" where
  "ExponentPart s =
     (case s of
        [] \<Rightarrow> Some 0
      | c # r \<Rightarrow>
          if c = CHR ''e'' \<or> c = CHR ''E'' then
            (let sg = (if r \<noteq> [] \<and> hd r = CHR ''-'' then - 1 else 1);
                 ds = (if r \<noteq> [] \<and> (hd r = CHR ''-'' \<or> hd r = CHR ''+'') then tl r else r)
             in if ds \<noteq> [] \<and> list_all isDigit ds
                then Some (sg * int (radix_value 10 ds)) else None)
          else None)"

definition StrUnsignedDecimalLiteral :: "string \<Rightarrow> jsnum" where
  "StrUnsignedDecimalLiteral s =
     (if s = ''Infinity'' then PInf
      else
        (let ip = takeWhile isDigit s; r = dropWhile isDigit s in
         if r \<noteq> [] \<and> hd r = CHR ''.'' then
           (let fp = takeWhile isDigit (tl r); r2 = dropWhile isDigit (tl r) in
            if ip = [] \<and> fp = [] then NaN
            else
              (case ExponentPart r2 of
                 None \<Rightarrow> NaN
               | Some e \<Rightarrow>
                   to_double ((of_nat (radix_value 10 ip)
                               + of_nat (radix_value 10 fp) / 10 ^ length fp) * pow10 e)))
         else if ip = [] then NaN
         else
           (case ExponentPart r of
              None \<Rightarrow> NaN
            | Some e \<Rightarrow> to_double (of_nat (radix_value 10 ip) * pow10 e))))"

definition StringToNumber :: "string \<Rightarrow> jsnum" where
  "StringToNumber str =
     (let s = trim str in
      if s = [] then Fin 0
      else if hd s = CHR ''+'' then StrUnsignedDecimalLiteral (tl s)
      else if hd s = CHR ''-'' then num_neg (StrUnsignedDecimalLiteral (tl s))
      else if take 2 s = ''0x'' \<or> take 2 s = ''0X'' then radix_literal 16 (drop 2 s)
      else if take 2 s = ''0o'' \<or> take 2 s = ''0O'' then radix_literal 8 (drop 2 s)
      else if take 2 s = ''0b'' \<or> take 2 s = ''0B'' then radix_literal 2 (drop 2 s)
      else StrUnsignedDecimalLiteral s)"

text \<open>\<open>Number(x)\<close> at the types the program applies it to: undefined, number, string.\<close>

definition Number :: "json \<Rightarrow> jsnum" where
  "Number x =
     (case x of
        JNum n \<Rightarrow> n
      | JStr s \<Rightarrow> StringToNumber s
      | JNull \<Rightarrow> Fin 0
      | JBool b \<Rightarrow> (if b then Fin 1 else Fin 0)
      | _ \<Rightarrow> NaN)"

subsection \<open>Strings\<close>

text \<open>\<open>haystack.indexOf(needle)\<close>: \<open>None\<close> stands for -1.\<close>

fun indexOf :: "string \<Rightarrow> string \<Rightarrow> nat option" where
  "indexOf [] needle = (if needle = [] then Some 0 else None)"
| "indexOf (c # cs) needle =
     (if take (length needle) (c # cs) = needle then Some 0
      else map_option Suc (indexOf cs needle))"

definition str_includes :: "string \<Rightarrow> string \<Rightarrow> bool" where
  "str_includes haystack needle = (indexOf haystack needle \<noteq> None)"

definition startsWith :: "string \<Rightarrow> string \<Rightarrow> bool" where
  "startsWith s p = (take (length p) s = p)"

section \<open>Schemas\<close>

text \<open>
  The program validates every value it reads with a zod schema (zod 3: the one-argument
  \<open>z.record\<close> is used). A schema is a term, and \<open>zparse s v\<close> is
  \<open>s.safeParse(v)\<close>: \<open>None\<close> when validation fails, the parsed output
  otherwise. An object schema reads each key of its shape (an absent key is
  \<open>undefined\<close>), fails when one of them fails, and returns the keys of the shape that
  are present or have a defined output, followed, for \<open>.passthrough()\<close>, by the other
  keys of the input; without \<open>.passthrough()\<close> the other keys are stripped. A union
  returns the output of its first alternative that accepts the value. \<open>z.number()\<close>
  rejects NaN and accepts the infinities.
\<close>

datatype schema =
    ZString
  | ZNumber
  | ZBoolean
  | ZUnknown
  | ZLiteral string
  | ZArray schema
  | ZObject "(string \<times> schema) list"
  | ZPassthrough "(string \<times> schema) list"
  | ZRecord schema
  | ZUnion "schema list"
  | ZOptional schema
  | ZNullable schema

fun zparse :: "schema \<Rightarrow> json \<Rightarrow> json option"
and zshape :: "(string \<times> schema) list \<Rightarrow> (string \<times> json) list \<Rightarrow> (string \<times> json) list option"
and zunion :: "schema list \<Rightarrow> json \<Rightarrow> json option"
and zarray :: "schema \<Rightarrow> json list \<Rightarrow> json list option"
and zrecord :: "schema \<Rightarrow> (string \<times> json) list \<Rightarrow> (string \<times> json) list option"
where
  "zparse ZString v = (case v of JStr _ \<Rightarrow> Some v | _ \<Rightarrow> None)"
| "zparse ZNumber v = (case v of JNum n \<Rightarrow> if n = NaN then None else Some v | _ \<Rightarrow> None)"
| "zparse ZBoolean v = (case v of JBool _ \<Rightarrow> Some v | _ \<Rightarrow> None)"
| "zparse ZUnknown v = Some v"
| "zparse (ZLiteral s) v = (if v = JStr s then Some v else None)"
| "zparse (ZArray s) v = (case v of JArr xs \<Rightarrow> map_option JArr (zarray s xs) | _ \<Rightarrow> None)"
| "zparse (ZObject shape) v =
     (case v of JObj kvs \<Rightarrow> map_option JObj (zshape shape kvs) | _ \<Rightarrow> None)"
| "zparse (ZPassthrough shape) v =
     (case v of
        JObj kvs \<Rightarrow>
          map_option (\<lambda>out. JObj (out @ filter (\<lambda>kv. fst kv \<notin> set (map fst shape)) kvs))
            (zshape shape kvs)
      | _ \<Rightarrow> None)"
| "zparse (ZRecord s) v = (case v of JObj kvs \<Rightarrow> map_option JObj (zrecord s kvs) | _ \<Rightarrow> None)"
| "zparse (ZUnion ss) v = zunion ss v"
| "zparse (ZOptional s) v = (if v = JUndefined then Some JUndefined else zparse s v)"
| "zparse (ZNullable s) v = (if v = JNull then Some JNull else zparse s v)"
| "zshape [] kvs = Some []"
| "zshape (ks # shape) kvs =
     (case zparse (snd ks) (member kvs (fst ks)) of
        None \<Rightarrow> None
      | Some r \<Rightarrow>
          (case zshape shape kvs of
             None \<Rightarrow> None
           | Some out \<Rightarrow>
               Some (if r \<noteq> JUndefined \<or> fst ks \<in> set (map fst kvs)
                     then (fst ks, r) # out else out)))"
| "zunion [] v = None"
| "zunion (s # ss) v = (case zparse s v of Some r \<Rightarrow> Some r | None \<Rightarrow> zunion ss v)"
| "zarray s [] = Some []"
| "zarray s (x # xs) =
     (case zparse s x of
        None \<Rightarrow> None
      | Some r \<Rightarrow> (case zarray s xs of None \<Rightarrow> None | Some rs \<Rightarrow> Some (r # rs)))"
| "zrecord s [] = Some []"
| "zrecord s (kv # kvs) =
     (case zparse s (snd kv) of
        None \<Rightarrow> None
      | Some r \<Rightarrow>
          (case zrecord s kvs of None \<Rightarrow> None | Some rs \<Rightarrow> Some ((fst kv, r) # rs)))"

text \<open>\<open>z.union([z.string(), z.object({}).passthrough()])\<close>, the schema of a text field.\<close>

definition ZText :: schema where
  "ZText = ZUnion [ZString, ZPassthrough []]"

subsection \<open>Schemas of the utilities\<close>

definition YouTubeTextSchema :: schema where
  "YouTubeTextSchema =
     ZUnion [ZObject [(''simpleText'', ZString)],
             ZObject [(''runs'', ZArray (ZObject [(''text'', ZString)]))]]"

definition YouTubeImageSchema :: schema where
  "YouTubeImageSchema =
     ZPassthrough [(''url'', ZString), (''width'', ZNumber), (''height'', ZNumber)]"

definition YouTubeInitialDataSchema :: schema where
  "YouTubeInitialDataSchema =
     ZPassthrough
       [(''responseContext'',
         ZObject
           [(''serviceTrackingParams'',
             ZArray
               (ZObject
                  [(''params'',
                    ZOptional
                      (ZArray (ZObject [(''key'', ZString), (''value'', ZString)])))]))])]"

definition YouTubeItemSectionRendererSchema :: schema where
  "YouTubeItemSectionRendererSchema =
     ZObject [(''itemSectionRenderer'', ZObject [(''contents'', ZArray (ZRecord ZUnknown))])]"

definition YouTubeRichItemRendererSchema :: schema where
  "YouTubeRichItemRendererSchema =
     ZObject [(''richItemRenderer'', ZObject [(''content'', ZRecord ZUnknown)])]"

definition YouTubeRichSectionRendererSchema :: schema where
  "YouTubeRichSectionRendererSchema =
     ZObject [(''richSectionRenderer'', ZObject [(''content'', ZRecord ZUnknown)])]"

definition YouTubeRendererItemSchema :: schema where
  "YouTubeRendererItemSchema =
     ZUnion [YouTubeItemSectionRendererSchema,
             YouTubeRichItemRendererSchema,
             YouTubeRichSectionRendererSchema,
             ZObject [(''continuationItemRenderer'', ZUnknown)]]"

definition YouTubePrimaryContentsSchema :: schema where
  "YouTubePrimaryContentsSchema =
     ZUnion [ZObject [(''sectionListRenderer'',
                       ZObject [(''contents'', ZArray YouTubeRendererItemSchema)])],
             ZObject [(''richGridRenderer'',
                       ZObject [(''contents'', ZArray YouTubeRendererItemSchema)])]]"

definition YouTubeSearchResponseSchema :: schema where
  "YouTubeSearchResponseSchema =
     ZObject
       [(''contents'',
         ZObject
           [(''twoColumnSearchResultsRenderer'',
             ZObject [(''primaryContents'', YouTubePrimaryContentsSchema)])]),
        (''estimatedResults'', ZOptional (ZUnion [ZString, ZNumber]))]"

definition YouTubeContinuationItemRendererSchema :: schema where
  "YouTubeContinuationItemRendererSchema =
     ZObject
       [(''continuationItemRenderer'',
         ZObject
           [(''continuationEndpoint'',
             ZObject [(''continuationCommand'', ZObject [(''token'', ZString)])])])]"

definition YouTubeContinuationItemsActionSchema :: schema where
  "YouTubeContinuationItemsActionSchema =
     ZObject
       [(''appendContinuationItemsAction'',
         ZObject [(''continuationItems'', ZArray ZUnknown)])]"

definition YouTubePage2ResponseSchema :: schema where
  "YouTubePage2ResponseSchema =
     ZObject [(''onResponseReceivedCommands'', ZArray YouTubeContinuationItemsActionSchema)]"

definition YouTubeSearchHeaderSchema :: schema where
  "YouTubeSearchHeaderSchema =
     ZObject [(''header'',
     ZObject [(''searchHeaderRenderer'',
     ZObject [(''searchFilterButton'',
     ZObject [(''buttonRenderer'',
     ZObject [(''command'',
     ZObject [(''openPopupAction'',
     ZObject [(''popup'',
     ZObject [(''searchFilterOptionsDialogRenderer'',
     ZObject [(''groups'',
       ZArray (ZObject [(''searchFilterGroupRenderer'',
         ZObject [(''filters'',
           ZArray (ZObject [(''searchFilterRenderer'',
             ZObject [(''navigationEndpoint'',
               ZObject [(''searchEndpoint'',
                 ZObject [(''params'', ZString)])])])]))])]))])])])])])])])])]"

section \<open>The platform\<close>

text \<open>
  What the program takes from its platform and from the network is a parameter of the
  model. \<open>new_URL u base\<close> is \<open>new URL(u, base)\<close>, \<open>None\<close> when the constructor throws
  its \<open>TypeError\<close>; \<open>JSON_parse\<close> is \<open>None\<close> on a syntax error. A request to the network
  is answered as a function of the request and of the number of requests issued before
  it: \<open>fetch_page\<close> is the GET of the results page followed by \<open>res.text()\<close>,
  \<open>fetch_api\<close> is \<open>doPost\<close> on the search endpoint (the POST followed by \<open>r.json()\<close>);
  \<open>None\<close> is a rejected promise. The transport options (headers, keep-alive) travel
  with a request unread by the program and are not part of a request here.
\<close>

record URL =
  href :: string
  pathname :: string
  searchParams :: "(string \<times> string) list"

datatype request =
    GET "(string \<times> string) list"
  | POST json

record env =
  new_URL :: "string \<Rightarrow> string \<Rightarrow> URL option"
  JSON_parse :: "string \<Rightarrow> json option"
  JSON_stringify :: "json \<Rightarrow> string"
  fetch_page :: "nat \<Rightarrow> (string \<times> string) list \<Rightarrow> string option"
  fetch_api :: "nat \<Rightarrow> json \<Rightarrow> json option"

text \<open>An object literal as \<open>JSON.stringify\<close> sends it: undefined properties are left out.\<close>

definition payload :: "(string \<times> json) list \<Rightarrow> json" where
  "payload kvs = JObj (filter (\<lambda>kv. snd kv \<noteq> JUndefined) kvs)"

section \<open>Utilities\<close>

definition BASE_URL :: string where
  "BASE_URL = ''https://www.youtube.com/''"

definition CONSENT_COOKIE :: string where
  "CONSENT_COOKIE = ''SOCS=CAI''"

definition DEFAULT_QUERY :: "(string \<times> string) list" where
  "DEFAULT_QUERY = [(''gl'', ''US''), (''hl'', ''en'')]"

record RequestInit =
  headers :: "(string \<times> string) list"
  other_init :: "(string \<times> json) list"

text \<open>The options object of a caller; \<open>None\<close> is an absent or undefined property.\<close>

record SearchOptions =
  safeSearch :: "bool option"
  limit :: "jsnum option"
  hl :: "string option"
  gl :: "string option"
  utcOffsetMinutes :: "jsnum option"
  type :: "string option"
  requestOptions :: "nat option"

record NormalizedOptions =
  limit :: jsnum
  safeSearch :: bool
  type :: string
  requestOptions :: nat
  query :: "(string \<times> string) list"
  search :: string
  gl :: "string option"
  hl :: "string option"
  utcOffsetMinutes :: "jsnum option"

record ParsedBody =
  json :: json
  context' :: json

definition between :: "string \<Rightarrow> string \<Rightarrow> string \<Rightarrow> string" where
  "between haystack left right =
     (case indexOf haystack left of
        None \<Rightarrow> []
      | Some pos \<Rightarrow>
          (let h = drop (pos + length left) haystack in
           case indexOf h right of
             None \<Rightarrow> []
           | Some pos2 \<Rightarrow> take pos2 h))"

definition tryParseBetween :: "env \<Rightarrow> string \<Rightarrow> string \<Rightarrow> string \<Rightarrow> bool \<Rightarrow> json" where
  "tryParseBetween E body left right addEndCurly =
     (let data = between body left right in
      if data = [] then JNull
      else
        (case JSON_parse E (if addEndCurly then data @ ''}'' else data) of
           None \<Rightarrow> JNull
         | Some v \<Rightarrow> v))"

text \<open>The loop of \<open>getClientVersion\<close> over the validated tracking parameters.\<close>

fun cver_of :: "json list \<Rightarrow> string option" where
  "cver_of [] = None"
| "cver_of (service # rest) =
     (if \<not> truthy (getprop service ''params'') then cver_of rest
      else
        (case find (\<lambda>p. getprop p ''key'' = JStr ''cver'') (elems (getprop service ''params'')) of
           None \<Rightarrow> cver_of rest
         | Some param \<Rightarrow>
             (case getprop param ''value'' of
                JStr v \<Rightarrow> if v = [] then cver_of rest else Some v
              | _ \<Rightarrow> cver_of rest)))"

definition getClientVersion :: "json \<Rightarrow> string option" where
  "getClientVersion j =
     (case zparse YouTubeInitialDataSchema j of
        None \<Rightarrow> None
      | Some data \<Rightarrow> cver_of (elems (path data [''responseContext'', ''serviceTrackingParams''])))"

definition buildPostContext :: "string \<Rightarrow> NormalizedOptions \<Rightarrow> json" where
  "buildPostContext clientVersion options =
     JObj
       [(''client'',
         JObj
           [(''utcOffsetMinutes'',
             (case NormalizedOptions.utcOffsetMinutes options of
                Some n \<Rightarrow> if truthy (JNum n) then JNum n else JNum (Fin (- 300))
              | None \<Rightarrow> JNum (Fin (- 300)))),
            (''gl'',
             (case NormalizedOptions.gl options of
                Some g \<Rightarrow> if g \<noteq> [] then JStr g else JStr ''US''
              | None \<Rightarrow> JStr ''US'')),
            (''hl'',
             (case NormalizedOptions.hl options of
                Some h \<Rightarrow> if h \<noteq> [] then JStr h else JStr ''en''
              | None \<Rightarrow> JStr ''en'')),
            (''clientName'', JStr ''WEB''),
            (''clientVersion'', JStr clientVersion)]),
        (''user'',
         JObj (if NormalizedOptions.safeSearch options
               then [(''enableSafetyMode'', JBool True)] else []))]"

text \<open>
  The schema of a parsed body, and a parsed body as the object it is. \<open>parseBody\<close>
  validates the object it returns; its context comes from \<open>buildPostContext\<close>, which
  fills every field of the schema, so that the validation there cannot fail and returns
  the object unchanged.
\<close>

definition ParsedBodySchema :: schema where
  "ParsedBodySchema =
     ZObject
       [(''json'', ZOptional ZUnknown),
        (''apiKey'', ZOptional ZString),
        (''context'',
         ZOptional
           (ZObject
              [(''client'',
                ZObject
                  [(''clientVersion'', ZString), (''utcOffsetMinutes'', ZNumber),
                   (''gl'', ZString), (''hl'', ZString), (''clientName'', ZString)]),
               (''user'', ZObject [(''enableSafetyMode'', ZOptional ZBoolean)])]))]"

definition ParsedBody_value :: "ParsedBody \<Rightarrow> json" where
  "ParsedBody_value parsed =
     JObj [(''json'', json parsed), (''apiKey'', JUndefined), (''context'', context' parsed)]"

definition parseBody :: "env \<Rightarrow> string \<Rightarrow> NormalizedOptions \<Rightarrow> ParsedBody" where
  "parseBody E body options =
     (let j =
        js_or (tryParseBetween E body ''var ytInitialData = '' ''};'' True)
       (js_or (tryParseBetween E body ''window[\"ytInitialData\"] = '' ''};'' True)
       (js_or (tryParseBetween E body ''var ytInitialData = '' '';</script>'' False)
              (tryParseBetween E body ''window[\"ytInitialData\"] = '' '';</script>'' False)));
          clientVersion =
            (case getClientVersion j of
               Some v \<Rightarrow> v
             | None \<Rightarrow>
                 (if between body ''INNERTUBE_CONTEXT_CLIENT_VERSION\":\"'' ''\"'' \<noteq> []
                  then between body ''INNERTUBE_CONTEXT_CLIENT_VERSION\":\"'' ''\"''
                  else between body ''innertube_context_client_version\":\"'' ''\"''))
      in \<lparr>json = j, context' = buildPostContext clientVersion options\<rparr>)"

definition parseText :: "json \<Rightarrow> string" where
  "parseText txt =
     (case zparse YouTubeTextSchema txt of
        None \<Rightarrow> []
      | Some data \<Rightarrow>
          if has_key ''simpleText'' data
          then (case getprop data ''simpleText'' of JStr s \<Rightarrow> s | _ \<Rightarrow> [])
          else concat (map (\<lambda>a. case getprop a ''text'' of JStr s \<Rightarrow> s | _ \<Rightarrow> [])
                         (elems (getprop data ''runs''))))"

definition parseIntegerFromText :: "json \<Rightarrow> jsnum" where
  "parseIntegerFromText x =
     (case x of
        JStr s \<Rightarrow> StringToNumber s
      | _ \<Rightarrow> StringToNumber (filter isDigit (parseText x)))"

text \<open>A step that may throw, mapped over a list: the first exception ends the loop.\<close>

fun map_err :: "('a \<Rightarrow> error + 'b) \<Rightarrow> 'a list \<Rightarrow> error + 'b list" where
  "map_err f [] = Inr []"
| "map_err f (x # xs) =
     (case f x of
        Inl e \<Rightarrow> Inl e
      | Inr y \<Rightarrow> (case map_err f xs of Inl e \<Rightarrow> Inl e | Inr ys \<Rightarrow> Inr (y # ys)))"

definition fields :: "json \<Rightarrow> (string \<times> json) list" where
  "fields x = (case x of JObj kvs \<Rightarrow> kvs | _ \<Rightarrow> [])"

definition width_of :: "json \<Rightarrow> jsnum" where
  "width_of x = (case getprop x ''width'' of JNum n \<Rightarrow> n | _ \<Rightarrow> NaN)"

text \<open>
  \<open>images.sort((a, b) => b.width - a.width)\<close>: the sort is stable, and an element
  moves behind another one only when the comparator is positive, that is when it is
  strictly narrower.
\<close>

fun insert_by_width :: "json \<Rightarrow> json list \<Rightarrow> json list" where
  "insert_by_width a [] = [a]"
| "insert_by_width a (b # bs) =
     (if num_less (width_of a) (width_of b) then b # insert_by_width a bs else a # b # bs)"

definition sort_by_width :: "json list \<Rightarrow> json list" where
  "sort_by_width xs = foldr insert_by_width xs []"

definition prepImg_one :: "env \<Rightarrow> json \<Rightarrow> error + json" where
  "prepImg_one E x =
     (case zparse YouTubeImageSchema x of
        None \<Rightarrow> Inr JNull
      | Some data \<Rightarrow>
          (case getprop data ''url'' of
             JStr u \<Rightarrow>
               if u \<noteq> [] then
                 (case new_URL E u BASE_URL of
                    None \<Rightarrow> Inl (TypeError ''Invalid URL'')
                  | Some url \<Rightarrow> Inr (JObj (AList.update ''url'' (JStr (href url)) (fields data))))
               else Inr (JObj (AList.update ''url'' JNull (fields data)))
           | _ \<Rightarrow> Inr (JObj (AList.update ''url'' JNull (fields data)))))"

definition prepImg :: "env \<Rightarrow> json list \<Rightarrow> error + json list" where
  "prepImg E img =
     (case map_err (prepImg_one E) img of
        Inl e \<Rightarrow> Inl e
      | Inr images \<Rightarrow> Inr (sort_by_width (filter (\<lambda>x. x \<noteq> JNull) images)))"

section \<open>Response unwrapper\<close>

text \<open>\<open>parseSearchResponse\<close>: \<open>None\<close> is \<open>null\<close>; otherwise the validated primary
  contents and the estimated result count.\<close>

definition parseSearchResponse :: "json \<Rightarrow> (json \<times> json) option" where
  "parseSearchResponse j =
     (case zparse YouTubeSearchResponseSchema j of
        None \<Rightarrow> None
      | Some data \<Rightarrow>
          Some (path data [''contents'', ''twoColumnSearchResultsRenderer'', ''primaryContents''],
                getprop data ''estimatedResults''))"

record wrapper =
  rawItems :: "json list"
  continuation :: json

definition find_continuation :: "json list \<Rightarrow> json" where
  "find_continuation contents =
     (case find (has_key ''continuationItemRenderer'') contents of
        None \<Rightarrow> JNull
      | Some contItem \<Rightarrow>
          (case zparse YouTubeContinuationItemRendererSchema contItem of
             None \<Rightarrow> JNull
           | Some data \<Rightarrow> data))"

definition rich_content :: "json \<Rightarrow> json" where
  "rich_content x =
     (case (if has_key ''richItemRenderer'' x
            then zparse YouTubeRichItemRendererSchema x else None) of
        Some data \<Rightarrow> path data [''richItemRenderer'', ''content'']
      | None \<Rightarrow>
          (case (if has_key ''richSectionRenderer'' x
                 then zparse YouTubeRichSectionRendererSchema x else None) of
             Some data \<Rightarrow> path data [''richSectionRenderer'', ''content'']
           | None \<Rightarrow> JNull))"

definition parseWrapper :: "json \<Rightarrow> wrapper" where
  "parseWrapper primaryContents =
     (case zparse YouTubePrimaryContentsSchema primaryContents of
        None \<Rightarrow> \<lparr>rawItems = [], continuation = JNull\<rparr>
      | Some data \<Rightarrow>
          if has_key ''sectionListRenderer'' data then
            (let contents = elems (path data [''sectionListRenderer'', ''contents'']) in
             \<lparr>rawItems =
                (case find (has_key ''itemSectionRenderer'') contents of
                   None \<Rightarrow> []
                 | Some itemSection \<Rightarrow>
                     (case zparse YouTubeItemSectionRendererSchema itemSection of
                        None \<Rightarrow> []
                      | Some parsed \<Rightarrow>
                          elems (path parsed [''itemSectionRenderer'', ''contents'']))),
              continuation = find_continuation contents\<rparr>)
          else if has_key ''richGridRenderer'' data then
            (let contents = elems (path data [''richGridRenderer'', ''contents'']) in
             \<lparr>rawItems =
                filter (\<lambda>x. x \<noteq> JNull)
                  (map rich_content
                     (filter (\<lambda>x. \<not> has_key ''continuationItemRenderer'' x) contents)),
              continuation = find_continuation contents\<rparr>)
          else \<lparr>rawItems = [], continuation = JNull\<rparr>)"

text \<open>The token read from a continuation that \<open>parseWrapper\<close> returned; \<open>null\<close> if none.\<close>

definition token_of :: "json \<Rightarrow> json" where
  "token_of cont =
     (if truthy cont
      then path cont [''continuationItemRenderer'', ''continuationEndpoint'',
                      ''continuationCommand'', ''token'']
      else JNull)"

definition parsePage2Response :: "json \<Rightarrow> json list option" where
  "parsePage2Response j =
     (case zparse YouTubePage2ResponseSchema j of
        None \<Rightarrow> None
      | Some data \<Rightarrow>
          (case elems (getprop data ''onResponseReceivedCommands'') of
             [] \<Rightarrow> None
           | firstCommand # _ \<Rightarrow>
               Some (elems (path firstCommand
                      [''appendContinuationItemsAction'', ''continuationItems'']))))"

text \<open>One round of the loop of \<open>parsePage2Wrapper\<close>.\<close>

definition page2_step :: "wrapper \<Rightarrow> json \<Rightarrow> wrapper" where
  "page2_step acc ci =
     (case zparse YouTubeRendererItemSchema ci of
        None \<Rightarrow> acc
      | Some data \<Rightarrow>
          if has_key ''itemSectionRenderer'' data then
            (case zparse YouTubeItemSectionRendererSchema data of
               None \<Rightarrow> acc
             | Some parsed \<Rightarrow>
                 acc\<lparr>rawItems :=
                   rawItems acc @ elems (path parsed [''itemSectionRenderer'', ''contents''])\<rparr>)
          else if has_key ''richItemRenderer'' data then
            (case zparse YouTubeRichItemRendererSchema data of
               None \<Rightarrow> acc
             | Some parsed \<Rightarrow>
                 acc\<lparr>rawItems := rawItems acc @ [path parsed [''richItemRenderer'', ''content'']]\<rparr>)
          else if has_key ''richSectionRenderer'' data then
            (case zparse YouTubeRichSectionRendererSchema data of
               None \<Rightarrow> acc
             | Some parsed \<Rightarrow>
                 acc\<lparr>rawItems :=
                   rawItems acc @ [path parsed [''richSectionRenderer'', ''content'']]\<rparr>)
          else if has_key ''continuationItemRenderer'' data then
            (case zparse YouTubeContinuationItemRendererSchema data of
               None \<Rightarrow> acc
             | Some parsed \<Rightarrow> acc\<lparr>continuation := parsed\<rparr>)
          else acc)"

definition parsePage2Wrapper :: "json list \<Rightarrow> wrapper" where
  "parsePage2Wrapper continuationItems =
     foldl page2_step \<lparr>rawItems = [], continuation = JNull\<rparr> continuationItems"

text \<open>
  \<open>getPlaylistParams\<close> validates its argument as a parsed body before it reads the search
  header from it.
\<close>

definition getPlaylistParams :: "ParsedBody \<Rightarrow> string option" where
  "getPlaylistParams parsed =
     (case zparse ParsedBodySchema (ParsedBody_value parsed) of
        None \<Rightarrow> None
      | Some parsedData \<Rightarrow>
        if \<not> truthy (getprop parsedData ''json'') then None
        else
        (case zparse YouTubeSearchHeaderSchema (getprop parsedData ''json'') of
           None \<Rightarrow> None
         | Some data \<Rightarrow>
             (let groups = elems (path data
                    [''header'', ''searchHeaderRenderer'', ''searchFilterButton'',
                     ''buttonRenderer'', ''command'', ''openPopupAction'', ''popup'',
                     ''searchFilterOptionsDialogRenderer'', ''groups''])
              in if length groups < 2 then None
                 else
                   (let filters = elems (path (groups ! 1)
                          [''searchFilterGroupRenderer'', ''filters''])
                    in if length filters < 3 then None
                       else
                         (case path (filters ! 2)
                                 [''searchFilterRenderer'', ''navigationEndpoint'',
                                  ''searchEndpoint'', ''params''] of
                            JStr ps \<Rightarrow> Some ps
                          | _ \<Rightarrow> None)))))"

section \<open>Entity normalizer\<close>

definition BASE_VIDEO_URL :: string where
  "BASE_VIDEO_URL = ''https://www.youtube.com/watch?v=''"

definition ImageSchema :: schema where
  "ImageSchema =
     ZObject [(''url'', ZNullable ZString), (''width'', ZNumber), (''height'', ZNumber)]"

definition AuthorSchema :: schema where
  "AuthorSchema =
     ZObject
       [(''name'', ZString),
        (''channelID'', ZString),
        (''url'', ZString),
        (''bestAvatar'', ZNullable ImageSchema),
        (''avatars'', ZArray ImageSchema),
        (''ownerBadges'', ZArray ZString),
        (''verified'', ZBoolean)]"

definition VideoSchema :: schema where
  "VideoSchema =
     ZObject
       [(''type'', ZLiteral ''video''),
        (''name'', ZString),
        (''id'', ZString),
        (''url'', ZString),
        (''thumbnail'', ZString),
        (''thumbnails'', ZArray ImageSchema),
        (''isUpcoming'', ZBoolean),
        (''upcoming'', ZNullable ZNumber),
        (''isLive'', ZBoolean),
        (''badges'', ZArray ZString),
        (''author'', ZNullable AuthorSchema),
        (''description'', ZString),
        (''views'', ZNullable ZNumber),
        (''duration'', ZString),
        (''uploadedAt'', ZString)]"

definition PlaylistSchema :: schema where
  "PlaylistSchema =
     ZObject
       [(''type'', ZLiteral ''playlist''),
        (''id'', ZString),
        (''name'', ZString),
        (''url'', ZString),
        (''owner'', ZNullable AuthorSchema),
        (''publishedAt'', ZNullable ZString),
        (''length'', ZNumber)]"

definition YouTubeMetadataBadgeSchema :: schema where
  "YouTubeMetadataBadgeSchema =
     ZPassthrough
       [(''metadataBadgeRenderer'',
         ZObject [(''label'', ZString), (''tooltip'', ZOptional ZString)])]"

definition YouTubeNavigationEndpointSchema :: schema where
  "YouTubeNavigationEndpointSchema =
     ZObject
       [(''browseEndpoint'',
         ZObject [(''browseId'', ZString), (''canonicalBaseUrl'', ZOptional ZString)]),
        (''commandMetadata'',
         ZOptional
           (ZObject [(''webCommandMetadata'', ZObject [(''url'', ZOptional ZString)])]))]"

definition YouTubeUpcomingEventDataSchema :: schema where
  "YouTubeUpcomingEventDataSchema = ZObject [(''startTime'', ZString)]"

definition YouTubeThumbnailOverlaySchema :: schema where
  "YouTubeThumbnailOverlaySchema =
     ZPassthrough
       [(''thumbnailOverlayTimeStatusRenderer'', ZOptional (ZObject [(''text'', ZText)]))]"

definition YouTubeThumbnailSchemas :: schema where
  "YouTubeThumbnailSchemas =
     ZObject
       [(''thumbnails'',
         ZArray (ZObject [(''url'', ZString), (''width'', ZNumber), (''height'', ZNumber)]))]"

definition owner_runs :: schema where
  "owner_runs =
     ZArray (ZObject [(''text'', ZString),
                      (''navigationEndpoint'', YouTubeNavigationEndpointSchema)])"

definition YouTubeVideoRendererSchema :: schema where
  "YouTubeVideoRendererSchema =
     ZPassthrough
       [(''videoId'', ZString),
        (''title'', ZOptional ZText),
        (''lengthText'', ZOptional ZText),
        (''thumbnail'', YouTubeThumbnailSchemas),
        (''thumbnailOverlays'', ZOptional (ZArray YouTubeThumbnailOverlaySchema)),
        (''badges'', ZOptional (ZArray YouTubeMetadataBadgeSchema)),
        (''upcomingEventData'', ZOptional YouTubeUpcomingEventDataSchema),
        (''descriptionSnippet'', ZOptional ZText),
        (''viewCountText'', ZOptional ZText),
        (''publishedTimeText'', ZOptional ZText),
        (''channelThumbnailSupportedRenderers'',
         ZOptional
           (ZObject
              [(''channelThumbnailWithLinkRenderer'',
                ZObject [(''thumbnail'', YouTubeThumbnailSchemas)])])),
        (''ownerText'', ZOptional (ZObject [(''runs'', owner_runs)])),
        (''ownerBadges'', ZOptional (ZArray YouTubeMetadataBadgeSchema))]"

definition YouTubePlaylistRendererSchema :: schema where
  "YouTubePlaylistRendererSchema =
     ZPassthrough
       [(''playlistId'', ZString),
        (''title'', ZOptional ZText),
        (''videoCount'', ZOptional (ZUnion [ZString, ZNumber])),
        (''publishedTimeText'', ZOptional ZText),
        (''shortBylineText'',
         ZOptional
           (ZObject [(''simpleText'', ZOptional ZString), (''runs'', ZOptional owner_runs)])),
        (''longBylineText'', ZOptional (ZObject [(''runs'', owner_runs)])),
        (''ownerBadges'', ZOptional (ZArray YouTubeMetadataBadgeSchema))]"

definition YouTubeItemSchema :: schema where
  "YouTubeItemSchema =
     ZUnion [ZObject [(''videoRenderer'', YouTubeVideoRendererSchema)],
             ZObject [(''playlistRenderer'', YouTubePlaylistRendererSchema)],
             ZObject [(''gridVideoRenderer'', YouTubeVideoRendererSchema)]]"

text \<open>\<open>xs[i]\<close> on an array: \<open>undefined\<close> beyond its end.\<close>

definition item_at :: "json list \<Rightarrow> nat \<Rightarrow> json" where
  "item_at xs i = (if i < length xs then xs ! i else JUndefined)"

definition str_of :: "json \<Rightarrow> string" where
  "str_of x = (case x of JStr s \<Rightarrow> s | _ \<Rightarrow> [])"

text \<open>The two tests on \<open>JSON.stringify(obj.ownerBadges)\<close>, false without owner badges.\<close>

definition badges_include :: "env \<Rightarrow> json \<Rightarrow> string \<Rightarrow> bool" where
  "badges_include E ownerBadges word =
     (truthy ownerBadges \<and> str_includes (JSON_stringify E ownerBadges) word)"

definition owner_badges :: "json \<Rightarrow> json" where
  "owner_badges ownerBadges =
     (if truthy ownerBadges
      then JArr (map (\<lambda>a. path a [''metadataBadgeRenderer'', ''tooltip'']) (elems ownerBadges))
      else JArr [])"

definition parseAuthor :: "env \<Rightarrow> json \<Rightarrow> error + json" where
  "parseAuthor E obj =
     (let ctsr = getprop obj ''channelThumbnailSupportedRenderers'';
          authorImg = js_or (getprop ctsr ''channelThumbnailWithLinkRenderer'')
                        (JObj [(''thumbnail'', JObj [(''thumbnails'', JArr [])])]);
          author = item_at (elems (path obj [''ownerText'', ''runs''])) 0
      in if \<not> truthy author \<or> \<not> truthy (getprop author ''navigationEndpoint'') then Inr JNull
         else
           (let browseEndpoint = path author [''navigationEndpoint'', ''browseEndpoint''];
                authorUrl = js_or (getprop browseEndpoint ''canonicalBaseUrl'')
                              (path author [''navigationEndpoint'', ''commandMetadata'',
                                            ''webCommandMetadata'', ''url''])
            in if \<not> truthy authorUrl \<or> \<not> truthy (getprop browseEndpoint ''browseId'')
               then Inr JNull
               else
                 (case new_URL E (str_of authorUrl) BASE_VIDEO_URL of
                    None \<Rightarrow> Inl (TypeError ''Invalid URL'')
                  | Some url \<Rightarrow>
                      (case prepImg E (elems (path authorImg [''thumbnail'', ''thumbnails''])) of
                         Inl e \<Rightarrow> Inl e
                       | Inr avatars \<Rightarrow>
                           Inr (case zparse AuthorSchema
                                  (JObj
                                     [(''name'', getprop author ''text''),
                                      (''channelID'', getprop browseEndpoint ''browseId''),
                                      (''url'', JStr (href url)),
                                      (''bestAvatar'', js_or (item_at avatars 0) JNull),
                                      (''avatars'', JArr avatars),
                                      (''ownerBadges'', owner_badges (getprop obj ''ownerBadges'')),
                                      (''verified'',
                                       JBool (badges_include E (getprop obj ''ownerBadges'') ''OFFICIAL''
                                            \<or> badges_include E (getprop obj ''ownerBadges'') ''VERIFIED''))])
                                of None \<Rightarrow> JNull | Some a \<Rightarrow> a)))))"

definition parseVideo :: "env \<Rightarrow> json \<Rightarrow> error + json" where
  "parseVideo E obj =
     (let badges = (if truthy (getprop obj ''badges'')
                    then map (\<lambda>a. path a [''metadataBadgeRenderer'', ''label''])
                           (elems (getprop obj ''badges''))
                    else []);
          isLive = list_ex (\<lambda>b. b = JStr ''LIVE NOW'' \<or> b = JStr ''LIVE'') badges;
          upcoming = (if truthy (getprop obj ''upcomingEventData'')
                      then JNum (StringToNumber
                             (str_of (path obj [''upcomingEventData'', ''startTime'']) @ ''000''))
                      else JNull);
          lengthText =
            (case find (has_key ''thumbnailOverlayTimeStatusRenderer'')
                    (elems (getprop obj ''thumbnailOverlays'')) of
               None \<Rightarrow> JUndefined
             | Some lengthFallback \<Rightarrow>
                 path lengthFallback [''thumbnailOverlayTimeStatusRenderer'', ''text'']);
          len = js_or (getprop obj ''lengthText'') lengthText
      in case prepImg E (elems (path obj [''thumbnail'', ''thumbnails''])) of
           Inl e \<Rightarrow> Inl e
         | Inr thumbnails \<Rightarrow>
             (case parseAuthor E obj of
                Inl e \<Rightarrow> Inl e
              | Inr author \<Rightarrow>
                  Inr (case zparse VideoSchema
                         (JObj
                            [(''type'', JStr ''video''),
                             (''name'', JStr (parseText (getprop obj ''title''))),
                             (''id'', getprop obj ''videoId''),
                             (''url'', JStr (BASE_VIDEO_URL @ str_of (getprop obj ''videoId''))),
                             (''thumbnail'', js_or (getprop (item_at thumbnails 0) ''url'') (JStr [])),
                             (''thumbnails'', JArr thumbnails),
                             (''isUpcoming'', JBool (truthy upcoming)),
                             (''upcoming'', upcoming),
                             (''isLive'', JBool isLive),
                             (''badges'', JArr badges),
                             (''author'', author),
                             (''description'', JStr (parseText (getprop obj ''descriptionSnippet''))),
                             (''views'',
                              (if truthy (getprop obj ''viewCountText'')
                               then JNum (parseIntegerFromText (getprop obj ''viewCountText''))
                               else JNull)),
                             (''duration'', JStr (parseText len)),
                             (''uploadedAt'', JStr (parseText (getprop obj ''publishedTimeText'')))])
                       of None \<Rightarrow> JNull | Some v \<Rightarrow> v)))"

definition parseOwner :: "env \<Rightarrow> json \<Rightarrow> error + json" where
  "parseOwner E obj =
     (if truthy (path obj [''shortBylineText'', ''simpleText'']) then Inr JNull
      else
        (let owner = js_or (item_at (elems (path obj [''shortBylineText'', ''runs''])) 0)
                           (item_at (elems (path obj [''longBylineText'', ''runs''])) 0)
         in if \<not> truthy (getprop owner ''navigationEndpoint'') then Inr JNull
            else
              (let browseEndpoint = path owner [''navigationEndpoint'', ''browseEndpoint''];
                   ownerUrl = js_or (getprop browseEndpoint ''canonicalBaseUrl'')
                                (path owner [''navigationEndpoint'', ''commandMetadata'',
                                             ''webCommandMetadata'', ''url''])
               in if \<not> truthy ownerUrl \<or> \<not> truthy (getprop browseEndpoint ''browseId'')
                  then Inr JNull
                  else
                    (case new_URL E (str_of ownerUrl) BASE_VIDEO_URL of
                       None \<Rightarrow> Inl (TypeError ''Invalid URL'')
                     | Some url \<Rightarrow>
                         Inr (case zparse AuthorSchema
                                (JObj
                                   [(''name'', getprop owner ''text''),
                                    (''channelID'', getprop browseEndpoint ''browseId''),
                                    (''url'', JStr (href url)),
                                    (''ownerBadges'', owner_badges (getprop obj ''ownerBadges'')),
                                    (''verified'',
                                     JBool (badges_include E (getprop obj ''ownerBadges'') ''OFFICIAL''
                                          \<or> badges_include E (getprop obj ''ownerBadges'') ''VERIFIED'')),
                                    (''bestAvatar'', JNull),
                                    (''avatars'', JArr [])])
                              of None \<Rightarrow> JNull | Some a \<Rightarrow> a)))))"

definition parsePlaylist :: "env \<Rightarrow> json \<Rightarrow> error + json" where
  "parsePlaylist E obj =
     (case parseOwner E obj of
        Inl e \<Rightarrow> Inl e
      | Inr owner \<Rightarrow>
          Inr (case zparse PlaylistSchema
                 (JObj
                    [(''type'', JStr ''playlist''),
                     (''id'', getprop obj ''playlistId''),
                     (''name'', JStr (parseText (getprop obj ''title''))),
                     (''url'', JStr (''https://www.youtube.com/playlist?list=''
                                     @ str_of (getprop obj ''playlistId''))),
                     (''owner'', owner),
                     (''publishedAt'', JStr (parseText (getprop obj ''publishedTimeText''))),
                     (''length'', JNum (Number (getprop obj ''videoCount'')))])
               of None \<Rightarrow> JNull | Some v \<Rightarrow> v))"

text \<open>The test \<open>x && typeof x === 'object'\<close>, and \<open>Array.isArray(x) && x.length > 0\<close>.\<close>

fun is_object :: "json \<Rightarrow> bool" where
  "is_object (JObj _) = True"
| "is_object (JArr _) = True"
| "is_object _ = False"

fun nonempty_array :: "json \<Rightarrow> bool" where
  "nonempty_array (JArr (_ # _)) = True"
| "nonempty_array _ = False"

text \<open>The first match of \<open>/(\d+)/\<close> in a text; empty when there is none.\<close>

definition first_digits :: "string \<Rightarrow> string" where
  "first_digits text = takeWhile isDigit (dropWhile (\<lambda>c. \<not> isDigit c) text)"

text \<open>
  The two loops that read the video count of a lockup: the inner loop over the badges
  of one overlay stops at its first badge whose text holds a number, the outer loop
  goes on, so the last overlay with such a badge decides.
\<close>

fun badge_count :: "json list \<Rightarrow> jsnum option" where
  "badge_count [] = None"
| "badge_count (tb # tbs) =
     (if is_object tb \<and> is_object (getprop tb ''thumbnailBadgeViewModel'') then
        (case path tb [''thumbnailBadgeViewModel'', ''text''] of
           JStr text \<Rightarrow>
             if first_digits text \<noteq> [] then Some (StringToNumber (first_digits text))
             else badge_count tbs
         | _ \<Rightarrow> badge_count tbs)
      else badge_count tbs)"

definition overlay_step :: "jsnum \<Rightarrow> json \<Rightarrow> jsnum" where
  "overlay_step len overlay =
     (if is_object overlay \<and> is_object (getprop overlay ''thumbnailOverlayBadgeViewModel'') then
        (case path overlay [''thumbnailOverlayBadgeViewModel'', ''thumbnailBadges''] of
           JArr thumbnailBadges \<Rightarrow>
             (case badge_count thumbnailBadges of None \<Rightarrow> len | Some n \<Rightarrow> n)
         | _ \<Rightarrow> len)
      else len)"

definition lockup_length :: "json \<Rightarrow> jsnum" where
  "lockup_length lockup =
     (let contentImage = getprop lockup ''contentImage'';
          collection = getprop contentImage ''collectionThumbnailViewModel'';
          primary = getprop collection ''primaryThumbnail'';
          thumbnail = getprop primary ''thumbnailViewModel''
      in if is_object contentImage \<and> is_object collection \<and> is_object primary
            \<and> is_object thumbnail
         then (case getprop thumbnail ''overlays'' of
                 JArr overlays \<Rightarrow> foldl overlay_step (Fin 0) overlays
               | _ \<Rightarrow> Fin 0)
         else Fin 0)"

definition lockup_owner :: "json \<Rightarrow> json" where
  "lockup_owner lockupMeta =
     (let contentMetadata = getprop lockupMeta ''metadata'';
          metaVM = getprop contentMetadata ''contentMetadataViewModel'';
          metadataRows = getprop metaVM ''metadataRows'';
          firstRow = item_at (elems metadataRows) 0;
          metadataParts = getprop firstRow ''metadataParts'';
          firstPart = item_at (elems metadataParts) 0;
          text = getprop firstPart ''text''
      in if is_object contentMetadata \<and> is_object metaVM \<and> nonempty_array metadataRows
            \<and> is_object firstRow \<and> nonempty_array metadataParts \<and> is_object firstPart
            \<and> is_object text
         then (case getprop text ''content'' of
                 JStr ownerName \<Rightarrow>
                   JObj [(''name'', JStr ownerName),
                         (''channelID'', JStr []),
                         (''url'', JStr []),
                         (''ownerBadges'', JArr []),
                         (''verified'', JBool False),
                         (''bestAvatar'', JNull),
                         (''avatars'', JArr [])]
               | _ \<Rightarrow> JNull)
         else JNull)"

definition parsePlaylistFromLockup :: "json \<Rightarrow> json" where
  "parsePlaylistFromLockup lockup =
     (case getprop lockup ''contentId'' of
        JStr contentId \<Rightarrow>
          (let metadata = getprop lockup ''metadata'';
               lockupMeta = getprop metadata ''lockupMetadataViewModel'';
               title = getprop lockupMeta ''title''
           in if \<not> is_object metadata \<or> \<not> is_object lockupMeta \<or> \<not> is_object title
              then JNull
              else
                (case getprop title ''content'' of
                   JStr name \<Rightarrow>
                     (case zparse PlaylistSchema
                        (JObj
                           [(''type'', JStr ''playlist''),
                            (''id'', JStr contentId),
                            (''name'', JStr name),
                            (''url'', JStr (''https://www.youtube.com/playlist?list='' @ contentId)),
                            (''owner'', lockup_owner lockupMeta),
                            (''publishedAt'', JNull),
                            (''length'', JNum (lockup_length lockup))])
                      of None \<Rightarrow> JNull | Some v \<Rightarrow> v)
                 | _ \<Rightarrow> JNull))
      | _ \<Rightarrow> JNull)"

text \<open>\<open>parseItem\<close>: \<open>JNull\<close> is the \<open>null\<close> of an item that is dropped, \<open>Inl\<close> an
  exception that leaves the function.\<close>

definition parseItem :: "env \<Rightarrow> json \<Rightarrow> error + json" where
  "parseItem E item =
     (if has_key ''lockupViewModel'' item
      then Inr (parsePlaylistFromLockup (getprop item ''lockupViewModel''))
      else
        (case zparse YouTubeItemSchema item of
           None \<Rightarrow> Inr JNull
         | Some itemData \<Rightarrow>
             if has_key ''videoRenderer'' itemData
             then parseVideo E (getprop itemData ''videoRenderer'')
             else if has_key ''playlistRenderer'' itemData
             then parsePlaylist E (getprop itemData ''playlistRenderer'')
             else if has_key ''gridVideoRenderer'' itemData
             then parseVideo E (getprop itemData ''gridVideoRenderer'')
             else Inr JNull))"

section \<open>Program state\<close>

text \<open>
  The state that outlives a call: the module-level \<open>CACHE\<close> (a \<open>Map\<close>, here an
  association list in insertion order), the requests issued so far, and the store of the
  objects that callers and the program share by reference. An options object and a
  \<open>RequestInit\<close> object are addressed by their index in the store; a new object is
  appended.
\<close>

record world =
  CACHE :: "(string \<times> string) list"
  requests :: "request list"
  options_store :: "SearchOptions list"
  init_store :: "RequestInit list"

definition CACHE_initial :: "(string \<times> string) list" where
  "CACHE_initial =
     [(''clientVersion'', ''2.20240606.06.00''), (''playlistParams'', ''EgIQAw%3D%3D'')]"

definition CACHE_has :: "(string \<times> string) list \<Rightarrow> string \<Rightarrow> bool" where
  "CACHE_has C k = (map_of C k \<noteq> None)"

section \<open>Argument normalization\<close>

definition DEFAULT_limit :: jsnum where
  "DEFAULT_limit = Fin 10"

definition lower :: "char \<Rightarrow> char" where
  "lower c =
     (if 65 \<le> (of_char c :: nat) \<and> (of_char c :: nat) \<le> 90
      then char_of ((of_char c :: nat) + 32) else c)"

text \<open>
  A \<open>Headers\<close> object: names are lower-cased, and a repeated name joins its values,
  with a semicolon for \<open>cookie\<close> and a comma for every other name.
\<close>

definition Headers_append :: "(string \<times> string) list \<Rightarrow> string \<times> string \<Rightarrow> (string \<times> string) list" where
  "Headers_append h kv =
     (case map_of h (map lower (fst kv)) of
        None \<Rightarrow> h @ [(map lower (fst kv), snd kv)]
      | Some old \<Rightarrow>
          AList.update (map lower (fst kv))
            (old @ (if map lower (fst kv) = ''cookie'' then ''; '' else '', '') @ snd kv) h)"

definition Headers_new :: "(string \<times> string) list \<Rightarrow> (string \<times> string) list" where
  "Headers_new init = foldl Headers_append [] init"

definition Headers_get :: "(string \<times> string) list \<Rightarrow> string \<Rightarrow> string option" where
  "Headers_get h k = map_of h (map lower k)"

definition Headers_set :: "(string \<times> string) list \<Rightarrow> string \<Rightarrow> string \<Rightarrow> (string \<times> string) list" where
  "Headers_set h k v = AList.update (map lower k) v h"

definition with_consent_cookie :: "(string \<times> string) list \<Rightarrow> (string \<times> string) list" where
  "with_consent_cookie h =
     (case Headers_get h ''cookie'' of
        None \<Rightarrow> Headers_set h ''cookie'' CONSENT_COOKIE
      | Some cookie \<Rightarrow>
          if cookie = [] then Headers_set h ''cookie'' CONSENT_COOKIE
          else if \<not> str_includes cookie ''SOCS=''
          then Headers_set h ''cookie'' (cookie @ ''; '' @ CONSENT_COOKIE)
          else h)"

text \<open>\<open>{...a, ...b}\<close> on string records.\<close>

definition spread :: "(string \<times> string) list \<Rightarrow> (string \<times> string) list \<Rightarrow> (string \<times> string) list" where
  "spread a b = foldl (\<lambda>q kv. AList.update (fst kv) (snd kv) q) a b"

definition searchParams_get :: "(string \<times> string) list \<Rightarrow> string \<Rightarrow> string" where
  "searchParams_get ps k = (case map_of ps k of None \<Rightarrow> [] | Some v \<Rightarrow> v)"

definition valid_type :: "string option \<Rightarrow> bool" where
  "valid_type t = (t = Some ''video'' \<or> t = Some ''playlist'')"

definition bad_limit :: "jsnum option \<Rightarrow> bool" where
  "bad_limit l = (case l of None \<Rightarrow> True | Some n \<Rightarrow> n = NaN \<or> num_le n (Fin 0))"

text \<open>
  \<open>checkArgs(searchString, options)\<close>, with \<open>options\<close> the address \<open>p\<close> of the caller's
  object. The statements run in the order of the source, each a step on the store.
  First the write to \<open>options.type\<close>, which goes to the caller's object.
\<close>

definition write_default_type :: "nat \<Rightarrow> world \<Rightarrow> world" where
  "write_default_type p w =
     (if valid_type (SearchOptions.type (options_store w ! p)) then w
      else w\<lparr>options_store :=
             (options_store w)[p := (options_store w ! p)\<lparr>SearchOptions.type := Some ''video''\<rparr>]\<rparr>)"

text \<open>\<open>obj = {...DEFAULT_OPTIONS, ...options}\<close>: a new object behind the others.\<close>

definition copy_with_defaults :: "nat \<Rightarrow> world \<Rightarrow> world" where
  "copy_with_defaults p w =
     w\<lparr>options_store := options_store w @
          [(options_store w ! p)
             \<lparr>SearchOptions.limit :=
                (case SearchOptions.limit (options_store w ! p) of
                   None \<Rightarrow> Some DEFAULT_limit | Some n \<Rightarrow> Some n),
              SearchOptions.safeSearch :=
                (case SearchOptions.safeSearch (options_store w ! p) of
                   None \<Rightarrow> Some False | Some b \<Rightarrow> Some b)\<rparr>]\<rparr>"

text \<open>The correction of \<open>obj.limit\<close>, on the object at \<open>q\<close>. (The correction of
  \<open>obj.safeSearch\<close> has nothing left to do on an object of the declared type.)\<close>

definition correct_limit :: "nat \<Rightarrow> world \<Rightarrow> world" where
  "correct_limit q w =
     (if bad_limit (SearchOptions.limit (options_store w ! q))
      then w\<lparr>options_store :=
             (options_store w)[q := (options_store w ! q)\<lparr>SearchOptions.limit := Some DEFAULT_limit\<rparr>]\<rparr>
      else w)"

text \<open>
  \<open>obj.requestOptions = {...requestOptionsValue, headers}\<close>: the caller's request
  options are read, a new \<open>RequestInit\<close> with a new \<open>Headers\<close> object is stored behind
  the others, and its address is written to the object at \<open>q\<close>.
\<close>

definition copy_request_options :: "nat \<Rightarrow> nat \<Rightarrow> world \<Rightarrow> world" where
  "copy_request_options p q w =
     (let requestOptionsValue =
            (case SearchOptions.requestOptions (options_store w ! p) of
               None \<Rightarrow> \<lparr>headers = [], other_init = []\<rparr>
             | Some r \<Rightarrow> init_store w ! r)
      in w\<lparr>init_store := init_store w @
              [requestOptionsValue\<lparr>headers :=
                 with_consent_cookie (Headers_new (headers requestOptionsValue))\<rparr>],
            options_store :=
              (options_store w)[q := (options_store w ! q)
                 \<lparr>SearchOptions.requestOptions := Some (length (init_store w))\<rparr>]\<rparr>)"

text \<open>The query parameters and the search term, or one of the two exceptions.\<close>

definition is_filter_link :: "string \<Rightarrow> URL \<Rightarrow> bool" where
  "is_filter_link searchString inputURL =
     (startsWith searchString BASE_URL \<and> pathname inputURL = ''/results''
      \<and> ''sp'' \<in> set (map fst (searchParams inputURL)))"

definition build_query ::
  "env \<Rightarrow> string \<Rightarrow> SearchOptions \<Rightarrow> error + (string \<times> string) list \<times> string" where
  "build_query E searchString options =
     (case new_URL E searchString BASE_URL of
        None \<Rightarrow> Inl (TypeError ''Invalid URL'')
      | Some inputURL \<Rightarrow>
          if is_filter_link searchString inputURL
             \<and> searchParams_get (searchParams inputURL) ''search_query'' = []
          then Inl (Error ''filter links have to include a \"search_string\" query'')
          else
            (let query0 =
                   (if is_filter_link searchString inputURL
                    then foldl (\<lambda>q key. AList.update key
                                  (searchParams_get (searchParams inputURL) key) q)
                           [] (map fst (searchParams inputURL))
                    else [(''search_query'', searchString)]);
                 query1 = spread DEFAULT_QUERY query0;
                 query2 = (case SearchOptions.gl options of
                             Some g \<Rightarrow> if g \<noteq> [] then AList.update ''gl'' g query1 else query1
                           | None \<Rightarrow> query1);
                 query3 = (case SearchOptions.hl options of
                             Some h \<Rightarrow> if h \<noteq> [] then AList.update ''hl'' h query2 else query2
                           | None \<Rightarrow> query2)
             in Inr (query3, searchParams_get query0 ''search_query'')))"

text \<open>
  The object handed to \<open>NormalizedOptionsSchema.parse\<close>, and the parse. On an options
  object of the declared type the string, boolean and record fields validate; a number
  field fails when it is NaN, and \<open>type\<close> when it is none of the two names.
\<close>

definition normalized :: "SearchOptions \<Rightarrow> SearchOptions \<Rightarrow> (string \<times> string) list \<times> string \<Rightarrow> NormalizedOptions" where
  "normalized obj options qs =
     \<lparr>NormalizedOptions.limit =
        (case SearchOptions.limit obj of Some n \<Rightarrow> n | None \<Rightarrow> DEFAULT_limit),
      safeSearch = (case SearchOptions.safeSearch obj of Some b \<Rightarrow> b | None \<Rightarrow> False),
      type = (case SearchOptions.type obj of Some t \<Rightarrow> t | None \<Rightarrow> ''video''),
      requestOptions = (case SearchOptions.requestOptions obj of Some r \<Rightarrow> r | None \<Rightarrow> 0),
      query = fst qs,
      search = snd qs,
      gl = SearchOptions.gl options,
      hl = SearchOptions.hl options,
      utcOffsetMinutes = SearchOptions.utcOffsetMinutes options\<rparr>"

definition NormalizedOptionsSchema_parse :: "NormalizedOptions \<Rightarrow> error + NormalizedOptions" where
  "NormalizedOptionsSchema_parse n =
     (if NormalizedOptions.limit n = NaN
         \<or> \<not> valid_type (Some (NormalizedOptions.type n))
         \<or> NormalizedOptions.utcOffsetMinutes n = Some NaN
      then Inl ZodError else Inr n)"

definition checkArgs :: "env \<Rightarrow> string \<Rightarrow> nat \<Rightarrow> world \<Rightarrow> (error + NormalizedOptions) \<times> world" where
  "checkArgs E searchString p w =
     (if searchString = [] then (Inl (Error ''search string is mandatory''), w)
      else
        (let q = length (options_store w);
             w' = copy_request_options p q
                    (correct_limit q (copy_with_defaults p (write_default_type p w)))
         in case build_query E searchString (options_store w' ! p) of
              Inl e \<Rightarrow> (Inl e, w')
            | Inr qs \<Rightarrow>
                (NormalizedOptionsSchema_parse
                   (normalized (options_store w' ! q) (options_store w' ! p) qs), w')))"

section \<open>Session parameter cache\<close>

text \<open>\<open>saveCache\<close> writes to the cache and to \<open>parsed.context\<close>; both are returned.\<close>

definition saveCache :: "ParsedBody \<Rightarrow> NormalizedOptions \<Rightarrow> (string \<times> string) list \<Rightarrow> ParsedBody \<times> (string \<times> string) list" where
  "saveCache parsed opts C =
     (let clientVersion = path (context' parsed) [''client'', ''clientVersion''];
          C1 = (if truthy clientVersion
                then AList.update ''clientVersion'' (str_of clientVersion) C else C);
          parsed1 = (if \<not> truthy clientVersion \<and> CACHE_has C ''clientVersion''
                     then parsed\<lparr>context' :=
                            buildPostContext (searchParams_get C ''clientVersion'') opts\<rparr>
                     else parsed)
      in (parsed1,
          (case getPlaylistParams parsed1 of
             None \<Rightarrow> C1
           | Some plParams \<Rightarrow>
               if plParams \<noteq> [] then AList.update ''playlistParams'' plParams C1 else C1)))"

section \<open>Pagination walker\<close>

definition BASE_API_URL :: string where
  "BASE_API_URL = ''https://www.youtube.com/youtubei/v1/search''"

text \<open>\<open>doPost\<close> on the search endpoint: the request is logged, and answered by the network.\<close>

definition doPost :: "env \<Rightarrow> json \<Rightarrow> world \<Rightarrow> json option \<times> world" where
  "doPost E pl w = (fetch_api E (length (requests w)) pl, w\<lparr>requests := requests w @ [POST pl]\<rparr>)"

text \<open>The two filters on the normalized items: by type, and \<open>index < opts.limit\<close>.\<close>

definition type_filter :: "string \<Rightarrow> json list \<Rightarrow> json list" where
  "type_filter t rs = filter (\<lambda>r. r \<noteq> JNull \<and> getprop r ''type'' = JStr t) rs"

definition limit_filter :: "jsnum \<Rightarrow> json list \<Rightarrow> json list" where
  "limit_filter l xs =
     map snd (filter (\<lambda>ix. num_less (of_count (fst ix)) l) (enumerate 0 xs))"

text \<open>
  \<open>parsePage2\<close>. The request and \<open>parsePage2Response\<close> stand before the \<open>try\<close> block:
  a rejected request rejects the promise of this step (\<open>Inl\<close>). Inside the block an
  exception of \<open>parseItem\<close> or a rejected nested step is caught, and the step returns
  the empty list. The recursion has no bound of its own, so the result is optional:
  \<open>None\<close> is a walk that never ends. The step writes the remaining budget to
  \<open>opts.limit\<close>; none of its callers reads \<open>opts\<close> after the call, so the object is
  passed on by value.
\<close>

text \<open>
  The end of the \<open>try\<close> block of a step, after its nested step has settled: a rejected
  nested step is caught and the step returns the empty list; otherwise the items of the
  nested step that are not \<open>null\<close> are pushed behind the step's own.
\<close>

definition append_nested ::
  "json list \<Rightarrow> (error + json list) \<times> world \<Rightarrow> (error + json list) \<times> world" where
  "append_nested parsedItems rw =
     (case fst rw of
        Inl e \<Rightarrow> (Inr [], snd rw)
      | Inr nestedResp \<Rightarrow> (Inr (parsedItems @ filter (\<lambda>i. i \<noteq> JNull) nestedResp), snd rw))"

partial_function (option) parsePage2 ::
  "env \<Rightarrow> string \<Rightarrow> json \<Rightarrow> NormalizedOptions \<Rightarrow> world \<Rightarrow> ((error + json list) \<times> world) option"
where
  "parsePage2 E token ctx opts w =
     (case doPost E (payload [(''context'', ctx), (''continuation'', JStr token)]) w of
        (None, w1) \<Rightarrow> Some (Inl FetchError, w1)
      | (Some j, w1) \<Rightarrow>
          (case parsePage2Response j of
             None \<Rightarrow> Some (Inr [], w1)
           | Some items \<Rightarrow>
               (case map_err (parseItem E) (rawItems (parsePage2Wrapper items)) of
                  Inl e \<Rightarrow> Some (Inr [], w1)
                | Inr rs \<Rightarrow>
                    (let parsedItems =
                           limit_filter (NormalizedOptions.limit opts)
                             (type_filter (NormalizedOptions.type opts) rs);
                         opts1 = opts\<lparr>NormalizedOptions.limit :=
                                   num_minus (NormalizedOptions.limit opts)
                                     (of_count (length parsedItems))\<rparr>;
                         nextToken = token_of (continuation (parsePage2Wrapper items))
                     in if \<not> truthy nextToken \<or> num_less (NormalizedOptions.limit opts1) (Fin 1)
                        then Some (Inr parsedItems, w1)
                        else
                          Option.bind (parsePage2 E (str_of nextToken) ctx opts1 w1)
                            (\<lambda>rw. Some (append_nested parsedItems rw))))))"

declare parsePage2.simps [code]

section \<open>Retry orchestrator\<close>

record SearchResult =
  query :: string
  items :: "json list"
  results :: jsnum

datatype outcome =
    Retry world
  | Return "(error + SearchResult) \<times> world"

definition estimated :: "json \<Rightarrow> jsnum" where
  "estimated e =
     (case e of
        JNum n \<Rightarrow> n
      | JStr s \<Rightarrow> if truthy (JNum (StringToNumber s)) then StringToNumber s else Fin 0
      | _ \<Rightarrow> Fin 0)"

definition shouldFetch :: "NormalizedOptions \<Rightarrow> (string \<times> string) list \<Rightarrow> bool" where
  "shouldFetch opts C =
     (\<not> NormalizedOptions.safeSearch opts
      \<or> \<not> CACHE_has C ''clientVersion''
      \<or> \<not> CACHE_has C ''playlistParams'')"

definition by_type :: "string \<Rightarrow> json list \<Rightarrow> json list" where
  "by_type t xs =
     (if t = ''video'' then filter (\<lambda>item. getprop item ''type'' = JStr ''video'') xs
      else filter (\<lambda>item. getprop item ''type'' = JStr ''playlist'') xs)"

text \<open>
  The end of an attempt that walked the pagination: the walk is awaited outside every
  \<open>try\<close>, so a rejected walk rejects the search; otherwise its items that are not
  \<open>null\<close> follow those of the first page.
\<close>

definition with_pagination ::
  "NormalizedOptions \<Rightarrow> jsnum \<Rightarrow> json list \<Rightarrow> (error + json list) \<times> world \<Rightarrow> outcome" where
  "with_pagination opts res its rw =
     (case fst rw of
        Inl e \<Rightarrow> Return (Inl e, snd rw)
      | Inr nestedResp \<Rightarrow>
          Return
            (Inr \<lparr>query = search opts,
                  items = by_type (NormalizedOptions.type opts)
                            (its @ filter (\<lambda>i. i \<noteq> JNull) nestedResp),
                  results = res\<rparr>, snd rw))"

text \<open>
  The second half of one attempt, from the first use of \<open>parsed.json\<close> on: a missing or
  unrecognised document goes to the next attempt, anything else ends the search.
\<close>

definition ytsr_finish ::
  "env \<Rightarrow> NormalizedOptions \<Rightarrow> ParsedBody \<Rightarrow> world \<Rightarrow> outcome option" where
  "ytsr_finish E opts parsed w =
     (if \<not> truthy (json parsed) then Some (Retry w)
      else
        (case parseSearchResponse (json parsed) of
           None \<Rightarrow> Some (Retry w)
         | Some searchResponse \<Rightarrow>
             (case map_err (parseItem E) (rawItems (parseWrapper (fst searchResponse))) of
                Inl e \<Rightarrow> Some (Return (Inl e, w))
              | Inr rs \<Rightarrow>
                  (let its = limit_filter (NormalizedOptions.limit opts)
                               (type_filter (NormalizedOptions.type opts) rs);
                       opts1 = opts\<lparr>NormalizedOptions.limit :=
                                 num_minus (NormalizedOptions.limit opts) (of_count (length its))\<rparr>;
                       res = estimated (snd searchResponse);
                       token = token_of (continuation (parseWrapper (fst searchResponse)))
                   in if \<not> truthy token \<or> num_less (NormalizedOptions.limit opts1) (Fin 1)
                      then Some (Return
                             (Inr \<lparr>query = search opts,
                                   items = by_type (NormalizedOptions.type opts) its,
                                   results = res\<rparr>, w))
                      else
                        map_option (with_pagination opts res its)
                          (parsePage2 E (str_of token) (context' parsed) opts1 w)))))"

text \<open>The two \<open>CACHE.delete\<close> calls of the attempt with the counter at 2.\<close>

definition clear_session :: "world \<Rightarrow> world" where
  "clear_session w =
     w\<lparr>CACHE := AList.delete ''playlistParams'' (AList.delete ''clientVersion'' (CACHE w))\<rparr>"

text \<open>
  The fetch of the results page, when \<open>shouldFetch\<close> holds: the GET is logged and its
  body goes through \<open>parseBody\<close>; a rejected fetch is \<open>None\<close>. Without the fetch,
  \<open>parsed\<close> stays the empty record.
\<close>

definition fetch_results_page ::
  "env \<Rightarrow> NormalizedOptions \<Rightarrow> world \<Rightarrow> ParsedBody option \<times> world" where
  "fetch_results_page E opts w =
     (if shouldFetch opts (CACHE w)
      then (map_option (\<lambda>body. parseBody E body opts)
              (fetch_page E (length (requests w)) (NormalizedOptions.query opts)),
            w\<lparr>requests := requests w @ [GET (NormalizedOptions.query opts)]\<rparr>)
      else (Some \<lparr>json = JUndefined, context' = JUndefined\<rparr>, w))"

text \<open>
  The branch on the requested type. The POST of a playlist search is outside every
  \<open>try\<close>; the POST of a video search is inside one that rethrows on the last attempt
  only.
\<close>

definition ytsr_search ::
  "env \<Rightarrow> string \<Rightarrow> nat \<Rightarrow> NormalizedOptions \<Rightarrow> ParsedBody \<Rightarrow> world \<Rightarrow> outcome option" where
  "ytsr_search E searchString retries opts parsed w =
     (if NormalizedOptions.type opts = ''playlist'' then
        (case doPost E
                (payload
                   [(''context'', context' parsed),
                    (''params'',
                     (case map_of (CACHE w) ''playlistParams'' of
                        None \<Rightarrow> JUndefined | Some ps \<Rightarrow> JStr ps)),
                    (''query'', JStr searchString)]) w of
           (None, w4) \<Rightarrow> Some (Return (Inl FetchError, w4))
         | (Some j, w4) \<Rightarrow>
             if \<not> truthy j
             then Some (Return (Inl (Error ''Cannot searching for Playlist!''), w4))
             else ytsr_finish E opts (parsed\<lparr>json := j\<rparr>) w4)
      else if NormalizedOptions.safeSearch opts \<or> \<not> truthy (json parsed) then
        (case doPost E
                (payload [(''context'', context' parsed), (''query'', JStr searchString)]) w of
           (None, w4) \<Rightarrow>
             if retries = 1 then Some (Return (Inl FetchError, w4))
             else ytsr_finish E opts parsed w4
         | (Some j, w4) \<Rightarrow> ytsr_finish E opts (parsed\<lparr>json := j\<rparr>) w4)
      else ytsr_finish E opts parsed w)"

text \<open>
  One attempt with the counter at \<open>retries\<close>, up to its recursive call, which is in
  tail position and is made by \<open>ytsr\<close> below. The fetch of the results page is outside
  every \<open>try\<close>.
\<close>

definition ytsr_attempt ::
  "env \<Rightarrow> string \<Rightarrow> nat \<Rightarrow> nat \<Rightarrow> world \<Rightarrow> outcome option" where
  "ytsr_attempt E searchString options retries w =
     (let w0 = (if retries = 2 then clear_session w else w)
      in if retries = 0 then Some (Return (Inl (Error ''Unable to find JSON!''), w0))
         else
           (case checkArgs E searchString options w0 of
              (Inl e, w1) \<Rightarrow> Some (Return (Inl e, w1))
            | (Inr opts, w1) \<Rightarrow>
                (case fetch_results_page E opts w1 of
                   (None, w2) \<Rightarrow> Some (Return (Inl FetchError, w2))
                 | (Some parsed0, w2) \<Rightarrow>
                     ytsr_search E searchString retries opts
                       (fst (saveCache parsed0 opts (CACHE w2)))
                       (w2\<lparr>CACHE := snd (saveCache parsed0 opts (CACHE w2))\<rparr>))))"

text \<open>
  \<open>ytsr(searchString, options, retries)\<close>: \<open>options\<close> is the address of the caller's
  options object, \<open>retries\<close> the attempt counter (3 by default), a natural number.
\<close>

function ytsr :: "env \<Rightarrow> string \<Rightarrow> nat \<Rightarrow> nat \<Rightarrow> world \<Rightarrow> ((error + SearchResult) \<times> world) option" where
  "ytsr E searchString options retries w =
     (case ytsr_attempt E searchString options retries w of
        None \<Rightarrow> None
      | Some (Return r) \<Rightarrow> Some r
      | Some (Retry w') \<Rightarrow> ytsr E searchString options (retries - 1) w')"
  by pat_completeness auto
termination
proof (relation "measure (\<lambda>(E, s, options, retries, w). retries)")
  show "wf (measure (\<lambda>(E, s, options, retries, w). retries))"
    by simp
next
  fix E searchString options retries w x2 x1
  assume a: "ytsr_attempt E searchString options retries w = Some x2" and b: "x2 = Retry x1"
  have "retries \<noteq> 0"
  proof
    assume "retries = 0"
    then have "ytsr_attempt E searchString options retries w
               = Some (Return (Inl (Error ''Unable to find JSON!''), w))"
      by (simp add: ytsr_attempt_def)
    with a b show False by simp
  qed
  then show "((E, searchString, options, retries - 1, x1), E, searchString, options, retries, w)
             \<in> measure (\<lambda>(E, s, options, retries, w). retries)"
    by simp
qed

section \<open>Observations and sample data\<close>

text \<open>The state in which an attempt ends, and the requests that are POSTs.\<close>

fun outcome_world :: "outcome \<Rightarrow> world" where
  "outcome_world (Retry w) = w"
| "outcome_world (Return rw) = snd rw"

fun is_POST :: "request \<Rightarrow> bool" where
  "is_POST (POST _) = True"
| "is_POST (GET _) = False"

text \<open>What a continuation step sends, and what it reads from the answer: the normalized
  items of the batch and its next token; nothing from an answer that is not a batch or
  whose items make \<open>parseItem\<close> throw.\<close>

definition continuation_payload :: "json \<Rightarrow> string \<Rightarrow> json" where
  "continuation_payload ctx token = payload [(''context'', ctx), (''continuation'', JStr token)]"

definition read_batch :: "env \<Rightarrow> json \<Rightarrow> (json list \<times> json) option" where
  "read_batch E j =
     (case parsePage2Response j of
        None \<Rightarrow> None
      | Some batch \<Rightarrow>
          (case map_err (parseItem E) (rawItems (parsePage2Wrapper batch)) of
             Inl e \<Rightarrow> None
           | Inr rs \<Rightarrow> Some (rs, token_of (continuation (parsePage2Wrapper batch)))))"

definition kept_items :: "NormalizedOptions \<Rightarrow> json list \<Rightarrow> json list" where
  "kept_items opts rs =
     limit_filter (NormalizedOptions.limit opts) (type_filter (NormalizedOptions.type opts) rs)"

text \<open>The limit that \<open>checkArgs\<close> derives from the caller's.\<close>

definition normalized_limit :: "jsnum option \<Rightarrow> jsnum" where
  "normalized_limit l = (case l of None \<Rightarrow> DEFAULT_limit | Some n \<Rightarrow> if bad_limit (Some n) then DEFAULT_limit else n)"

text \<open>Documents of the shapes the platform sends.\<close>

definition item_section_wrapper :: "json list \<Rightarrow> json" where
  "item_section_wrapper its =
     JObj [(''itemSectionRenderer'', JObj [(''contents'', JArr its)])]"

definition continuation_wrapper :: "string \<Rightarrow> json" where
  "continuation_wrapper tok =
     JObj [(''continuationItemRenderer'',
            JObj [(''continuationEndpoint'',
                   JObj [(''continuationCommand'', JObj [(''token'', JStr tok)])])])]"

definition section_list :: "json list \<Rightarrow> json" where
  "section_list contents = JObj [(''sectionListRenderer'', JObj [(''contents'', JArr contents)])]"

definition search_response :: "json list \<Rightarrow> json" where
  "search_response contents =
     JObj [(''contents'',
            JObj [(''twoColumnSearchResultsRenderer'',
                   JObj [(''primaryContents'', section_list contents)])]),
           (''estimatedResults'', JStr ''1000'')]"

definition page2_response :: "json list \<Rightarrow> json" where
  "page2_response continuationItems =
     JObj [(''onResponseReceivedCommands'',
            JArr [JObj [(''appendContinuationItemsAction'',
                        JObj [(''continuationItems'', JArr continuationItems)])]])]"

definition video_item :: "string \<Rightarrow> json" where
  "video_item vid =
     JObj [(''videoRenderer'',
            JObj [(''videoId'', JStr vid),
                  (''title'', JObj [(''simpleText'', JStr vid)]),
                  (''thumbnail'', JObj [(''thumbnails'', JArr [])])])]"

text \<open>
  A sample platform: the results page has no embedded data, so every search goes to
  the endpoint; the endpoint answers the request with number \<open>n\<close> (the page included)
  by the \<open>n\<close>-th entry of a list, and rejects a request beyond the list. The URL
  \<open>http://\<close>, which has no host, is invalid.
\<close>

definition sample_URL :: "string \<Rightarrow> string \<Rightarrow> URL option" where
  "sample_URL u base =
     (if u = ''http://'' then None
      else if startsWith u ''https://'' then Some \<lparr>href = u, pathname = ''/'', searchParams = []\<rparr>
      else Some \<lparr>href = ''https://www.youtube.com/'' @ u, pathname = ''/'' @ u, searchParams = []\<rparr>)"

definition sample_env :: "json option list \<Rightarrow> env" where
  "sample_env answers =
     \<lparr>new_URL = sample_URL,
      JSON_parse = (\<lambda>s. None),
      JSON_stringify = (\<lambda>j. []),
      fetch_page = (\<lambda>n q. Some []),
      fetch_api = (\<lambda>n pl. if n < length answers then answers ! n else None)\<rparr>"

definition no_options :: SearchOptions where
  "no_options =
     \<lparr>SearchOptions.safeSearch = None, limit = None, hl = None, gl = None,
      utcOffsetMinutes = None, type = None, requestOptions = None\<rparr>"

text \<open>The state of a process that has just started, with one options object.\<close>

definition start_world :: "SearchOptions \<Rightarrow> world" where
  "start_world options =
     \<lparr>CACHE = CACHE_initial, requests = [], options_store = [options], init_store = []\<rparr>"

text \<open>The log of the second state extends that of the first by POSTs only.\<close>

definition posts_only :: "world \<Rightarrow> world \<Rightarrow> bool" where
  "posts_only w w' = (\<exists>ps. list_all is_POST ps \<and> requests w' = requests w @ ps)"

text \<open>What \<open>checkArgs\<close> returns for the search string \<open>test\<close> and no options.\<close>

definition sample_options :: NormalizedOptions where
  "sample_options =
     \<lparr>NormalizedOptions.limit = Fin 10, safeSearch = False, type = ''video'', requestOptions = 0,
      query = [(''gl'', ''US''), (''hl'', ''en''), (''search_query'', ''test'')],
      search = ''test'', gl = None, hl = None, utcOffsetMinutes = None\<rparr>"

definition sample_answers :: "json option list" where
  "sample_answers = [None, Some (search_response [item_section_wrapper [video_item ''a'']])]"

text \<open>An object, as opposed to every other value.\<close>

fun plain_object :: "json \<Rightarrow> bool" where
  "plain_object (JObj _) = True"
| "plain_object _ = False"

text \<open>Sample answers: a first continuation batch with a token, then a rejected request;
  and a first page with one video and a token.\<close>

definition failing_second_step :: "json option list" where
  "failing_second_step =
     [Some (page2_response [item_section_wrapper [video_item ''a''], continuation_wrapper ''t2'']),
      None]"

definition first_page :: ParsedBody where
  "first_page =
     \<lparr>json = search_response [item_section_wrapper [video_item ''a''], continuation_wrapper ''t1''],
      context' = JNull\<rparr>"

text \<open>Sample answers: three batches of four videos, each with a token for a next page.\<close>

definition batch_of_four :: "string \<Rightarrow> string \<Rightarrow> json" where
  "batch_of_four name next =
     page2_response
       [item_section_wrapper
          [video_item (name @ ''1''), video_item (name @ ''2''),
           video_item (name @ ''3''), video_item (name @ ''4'')],
        continuation_wrapper next]"

definition three_batches :: "json option list" where
  "three_batches =
     [Some (batch_of_four ''a'' ''t2''), Some (batch_of_four ''b'' ''t3''),
      Some (batch_of_four ''c'' ''t4'')]"

text \<open>The number of items and the log with which a walk ends.\<close>

definition count_and_log ::
  "((error + json list) \<times> world) option \<Rightarrow> ((error + nat) \<times> request list) option" where
  "count_and_log r = map_option (\<lambda>rw. (map_sum id length (fst rw), requests (snd rw))) r"

text \<open>A batch with one video and no token.\<close>

definition last_batch :: json where
  "last_batch = page2_response [item_section_wrapper [video_item ''z'']]"

text \<open>A sample page: a filter menu whose third filter of the second group carries the
  playlist parameter, and a context with a client version.\<close>

definition filter_entry :: "string \<Rightarrow> json" where
  "filter_entry ps =
     JObj [(''searchFilterRenderer'',
       JObj [(''navigationEndpoint'',
         JObj [(''searchEndpoint'', JObj [(''params'', JStr ps)])])])]"

definition filter_group :: "json list \<Rightarrow> json" where
  "filter_group fs = JObj [(''searchFilterGroupRenderer'', JObj [(''filters'', JArr fs)])]"

definition search_header :: "json list \<Rightarrow> json" where
  "search_header groups =
     JObj [(''header'',
     JObj [(''searchHeaderRenderer'',
     JObj [(''searchFilterButton'',
     JObj [(''buttonRenderer'',
     JObj [(''command'',
     JObj [(''openPopupAction'',
     JObj [(''popup'',
     JObj [(''searchFilterOptionsDialogRenderer'',
     JObj [(''groups'', JArr groups)])])])])])])])])]"

definition sample_page :: ParsedBody where
  "sample_page =
     \<lparr>json = search_header
               [filter_group [],
                filter_group [filter_entry ''a'', filter_entry ''b'', filter_entry ''EgIQAw'']],
      context' = buildPostContext ''2.1'' sample_options\<rparr>"

text \<open>A video whose thumbnail has the invalid URL, so that \<open>parseItem\<close> throws on it, and
  a batch that holds it.\<close>

definition broken_item :: json where
  "broken_item =
     JObj [(''videoRenderer'',
            JObj [(''videoId'', JStr ''x''),
                  (''title'', JObj [(''simpleText'', JStr ''x'')]),
                  (''thumbnail'',
                   JObj [(''thumbnails'',
                          JArr [JObj [(''url'', JStr ''http://''), (''width'', JNum (Fin 1)),
                                      (''height'', JNum (Fin 1))]])])])]"

definition broken_batch :: "json option list" where
  "broken_batch =
     [Some (page2_response [item_section_wrapper [video_item ''a'', broken_item],
                            continuation_wrapper ''t2''])]"

text \<open>
  The elements of a section list as \<open>parseWrapper\<close> sees them, that is, after the
  validation of the list: an element is an item section when it validates as one, and
  a continuation element when it has the key \<open>continuationItemRenderer\<close> and validates
  as none of the three renderers that the schema of an element tries first.
\<close>

definition is_item_section :: "json \<Rightarrow> bool" where
  "is_item_section x = (zparse YouTubeItemSectionRendererSchema x \<noteq> None)"

definition is_continuation :: "json \<Rightarrow> bool" where
  "is_continuation x =
     (has_key ''continuationItemRenderer'' x
      \<and> zparse YouTubeItemSectionRendererSchema x = None
      \<and> zparse YouTubeRichItemRendererSchema x = None
      \<and> zparse YouTubeRichSectionRendererSchema x = None)"

text \<open>A section list as the results page carries it: the renderers have more keys than
  the program reads.\<close>

definition page_sections :: "json list" where
  "page_sections =
     [JObj [(''itemSectionRenderer'',
             JObj [(''contents'', JArr [video_item ''a'', video_item ''b'']),
                   (''trackingParams'', JStr ''p'')])],
      JObj [(''continuationItemRenderer'',
             JObj [(''trigger'', JStr ''CONTINUATION_TRIGGER_ON_ITEM_SHOWN''),
                   (''continuationEndpoint'',
                    JObj [(''clickTrackingParams'', JStr ''p''),
                          (''continuationCommand'',
                           JObj [(''token'', JStr ''t1''),
                                 (''request'', JStr ''CONTINUATION_REQUEST_TYPE_SEARCH'')])])])]]"

definition page_document :: "json list \<Rightarrow> json" where
  "page_document cs =
     JObj [(''sectionListRenderer'',
            JObj [(''contents'', JArr cs), (''trackingParams'', JStr ''p''),
                  (''targetId'', JStr ''search-feed'')])]"

declare ytsr.simps [simp del]

section \<open>Properties of the retry orchestrator\<close>

lemma map_of_delete_same: "map_of (AList.delete k al) k = None"
  by (simp add: map_of_eq_None_iff delete_notin_dom)

lemma clear_session_has:
  "\<not> CACHE_has (CACHE (clear_session w)) ''clientVersion''"
  "\<not> CACHE_has (CACHE (clear_session w)) ''playlistParams''"
  by (simp_all add: clear_session_def CACHE_has_def map_of_delete_same)

lemma clear_session_idem: "clear_session (clear_session w) = clear_session w"
  by (simp add: clear_session_def AList.delete_idem delete_twist)

lemma attempt_2_cleared: "ytsr_attempt E s p 2 (clear_session w) = ytsr_attempt E s p 2 w"
  by (simp add: ytsr_attempt_def clear_session_idem)


text \<open>
  C6: the attempt with the counter at 2 starts by deleting both keys of the session
  cache. The attempt, and the search from it on, run as they would from the state in
  which the two keys are already gone, so nothing in them sees the earlier contents;
  that state holds neither key and the same request log; and the deletion comes before
  the arguments are checked: when the check throws at once, the state it leaves is the
  cleared one.
\<close>

theorem second_attempt_clears_cache:
  "ytsr_attempt E s p 2 w = ytsr_attempt E s p 2 (clear_session w)
   \<and> ytsr E s p 2 w = ytsr E s p 2 (clear_session w)
   \<and> \<not> CACHE_has (CACHE (clear_session w)) ''clientVersion''
   \<and> \<not> CACHE_has (CACHE (clear_session w)) ''playlistParams''
   \<and> requests (clear_session w) = requests w
   \<and> ytsr_attempt E [] p 2 w
       = Some (Return (Inl (Error ''search string is mandatory''), clear_session w))"
proof -
  have a: "ytsr_attempt E s p 2 w = ytsr_attempt E s p 2 (clear_session w)"
    by (simp add: attempt_2_cleared)
  have b: "ytsr E s p 2 w = ytsr E s p 2 (clear_session w)"
    by (simp add: ytsr.simps[of _ _ _ 2] attempt_2_cleared)
  have c: "requests (clear_session w) = requests w"
    by (simp add: clear_session_def)
  have d: "ytsr_attempt E [] p 2 w
           = Some (Return (Inl (Error ''search string is mandatory''), clear_session w))"
    by (simp add: ytsr_attempt_def checkArgs_def)
  from a b c d clear_session_has show ?thesis by blast
qed

section \<open>Properties of argument normalization\<close>

lemma write_default_type_frame:
  "requests (write_default_type p w) = requests w"
  "CACHE (write_default_type p w) = CACHE w"
  "init_store (write_default_type p w) = init_store w"
  "length (options_store (write_default_type p w)) = length (options_store w)"
  by (simp_all add: write_default_type_def)

lemma write_default_type_nth:
  "i < length (options_store w) \<Longrightarrow>
   options_store (write_default_type p w) ! i =
     (if i = p \<and> \<not> valid_type (SearchOptions.type (options_store w ! p))
      then (options_store w ! p)\<lparr>SearchOptions.type := Some ''video''\<rparr>
      else options_store w ! i)"
  by (simp add: write_default_type_def)

lemma copy_with_defaults_frame:
  "requests (copy_with_defaults p w) = requests w"
  "CACHE (copy_with_defaults p w) = CACHE w"
  "init_store (copy_with_defaults p w) = init_store w"
  "length (options_store (copy_with_defaults p w)) = Suc (length (options_store w))"
  by (simp_all add: copy_with_defaults_def)

lemma copy_with_defaults_nth:
  "i < length (options_store w) \<Longrightarrow> options_store (copy_with_defaults p w) ! i = options_store w ! i"
  by (simp add: copy_with_defaults_def nth_append)

lemma correct_limit_frame:
  "requests (correct_limit q w) = requests w"
  "CACHE (correct_limit q w) = CACHE w"
  "init_store (correct_limit q w) = init_store w"
  "length (options_store (correct_limit q w)) = length (options_store w)"
  by (simp_all add: correct_limit_def)

lemma correct_limit_nth:
  "i \<noteq> q \<Longrightarrow> options_store (correct_limit q w) ! i = options_store w ! i"
  by (simp add: correct_limit_def)

lemma copy_request_options_frame:
  "requests (copy_request_options p q w) = requests w"
  "CACHE (copy_request_options p q w) = CACHE w"
  "length (options_store (copy_request_options p q w)) = length (options_store w)"
  "take (length (init_store w)) (init_store (copy_request_options p q w)) = init_store w"
  by (simp_all add: copy_request_options_def Let_def)

lemma copy_request_options_nth:
  "i \<noteq> q \<Longrightarrow> options_store (copy_request_options p q w) ! i = options_store w ! i"
  by (simp add: copy_request_options_def Let_def)

lemmas checkArgs_steps_frame =
  write_default_type_frame copy_with_defaults_frame correct_limit_frame copy_request_options_frame

lemma checkArgs_requests: "requests (snd (checkArgs E s p w)) = requests w"
  by (simp add: checkArgs_def Let_def checkArgs_steps_frame split: sum.splits)

lemma checkArgs_CACHE: "CACHE (snd (checkArgs E s p w)) = CACHE w"
  by (simp add: checkArgs_def Let_def checkArgs_steps_frame split: sum.splits)

lemma checkArgs_init_store:
  "take (length (init_store w)) (init_store (snd (checkArgs E s p w))) = init_store w"
proof -
  have "take (length (init_store w))
         (init_store (copy_request_options p q (correct_limit q (copy_with_defaults p (write_default_type p w)))))
        = init_store w" for q
    using copy_request_options_frame(4)[of "correct_limit q (copy_with_defaults p (write_default_type p w))" p q]
    by (simp add: checkArgs_steps_frame)
  then show ?thesis
    by (simp add: checkArgs_def Let_def split: sum.splits)
qed

lemma checkArgs_steps_nth:
  assumes "i < length (options_store w)"
  shows "options_store (copy_request_options p (length (options_store w))
            (correct_limit (length (options_store w)) (copy_with_defaults p (write_default_type p w)))) ! i
         = (if i = p \<and> \<not> valid_type (SearchOptions.type (options_store w ! p))
            then (options_store w ! p)\<lparr>SearchOptions.type := Some ''video''\<rparr>
            else options_store w ! i)"
proof -
  have ne: "i \<noteq> length (options_store w)" using assms by simp
  have li: "i < length (options_store (write_default_type p w))"
    using assms by (simp add: write_default_type_frame)
  show ?thesis
    by (simp add: copy_request_options_nth[OF ne] correct_limit_nth[OF ne]
        copy_with_defaults_nth[OF li] write_default_type_nth[OF assms])
qed

lemma snd_checkArgs:
  "snd (checkArgs E s p w) =
     (if s = [] then w
      else copy_request_options p (length (options_store w))
             (correct_limit (length (options_store w)) (copy_with_defaults p (write_default_type p w))))"
  by (simp add: checkArgs_def Let_def split: sum.splits)

lemma checkArgs_options_nth:
  assumes "i < length (options_store w)"
  shows "options_store (snd (checkArgs E s p w)) ! i
         = (if s \<noteq> [] \<and> i = p \<and> \<not> valid_type (SearchOptions.type (options_store w ! p))
            then (options_store w ! p)\<lparr>SearchOptions.type := Some ''video''\<rparr>
            else options_store w ! i)"
proof (cases "s = []")
  case True
  then show ?thesis by (simp add: snd_checkArgs)
next
  case False
  then show ?thesis
    by (simp only: snd_checkArgs if_False checkArgs_steps_nth[OF assms] simp_thms)
qed

lemma checkArgs_options_length:
  "length (options_store w) \<le> length (options_store (snd (checkArgs E s p w)))"
  by (simp add: snd_checkArgs checkArgs_steps_frame)

lemma write_default_type_limit:
  "p < length (options_store w) \<Longrightarrow>
   SearchOptions.limit (options_store (write_default_type p w) ! p) = SearchOptions.limit (options_store w ! p)"
  by (simp add: write_default_type_def)

lemma copy_with_defaults_new:
  "options_store (copy_with_defaults p w) ! length (options_store w) =
     (options_store w ! p)
        \<lparr>SearchOptions.limit :=
           (case SearchOptions.limit (options_store w ! p) of
              None \<Rightarrow> Some DEFAULT_limit | Some n \<Rightarrow> Some n),
         SearchOptions.safeSearch :=
           (case SearchOptions.safeSearch (options_store w ! p) of
              None \<Rightarrow> Some False | Some b \<Rightarrow> Some b)\<rparr>"
  by (simp add: copy_with_defaults_def)

lemma correct_limit_at:
  "q < length (options_store w) \<Longrightarrow>
   SearchOptions.limit (options_store (correct_limit q w) ! q) =
     (if bad_limit (SearchOptions.limit (options_store w ! q)) then Some DEFAULT_limit
      else SearchOptions.limit (options_store w ! q))"
  by (simp add: correct_limit_def)

lemma copy_request_options_limit:
  "q < length (options_store w) \<Longrightarrow>
   SearchOptions.limit (options_store (copy_request_options p q w) ! q) = SearchOptions.limit (options_store w ! q)"
  by (simp add: copy_request_options_def Let_def)

lemma obj_limit:
  assumes "p < length (options_store w)"
  shows "SearchOptions.limit
           (options_store (copy_request_options p (length (options_store w))
              (correct_limit (length (options_store w))
                 (copy_with_defaults p (write_default_type p w)))) ! length (options_store w))
         = Some (normalized_limit (SearchOptions.limit (options_store w ! p)))"
proof -
  let ?q = "length (options_store w)"
  let ?w1 = "write_default_type p w"
  let ?w2 = "copy_with_defaults p ?w1"
  have q1: "?q = length (options_store ?w1)" by (simp add: write_default_type_frame)
  have q2: "?q < length (options_store ?w2)"
    by (simp add: copy_with_defaults_frame write_default_type_frame)
  have q3: "?q < length (options_store (correct_limit ?q ?w2))"
    using q2 by (simp add: correct_limit_frame)
  have a: "SearchOptions.limit (options_store ?w2 ! ?q)
           = (case SearchOptions.limit (options_store w ! p) of None \<Rightarrow> Some DEFAULT_limit | Some n \<Rightarrow> Some n)"
    using copy_with_defaults_new[of p ?w1] write_default_type_limit[OF assms]
    by (simp add: write_default_type_frame)
  show ?thesis
    by (simp add: copy_request_options_limit[OF q3] correct_limit_at[OF q2] a normalized_limit_def
        bad_limit_def DEFAULT_limit_def split: option.splits)
qed

lemma checkArgs_limit:
  assumes "checkArgs E s p w = (Inr opts, w')" and "p < length (options_store w)"
  shows "NormalizedOptions.limit opts = normalized_limit (SearchOptions.limit (options_store w ! p))"
  using assms(1) obj_limit[OF assms(2)]
  by (auto simp add: checkArgs_def Let_def normalized_def NormalizedOptionsSchema_parse_def
      split: sum.splits if_splits)


text \<open>
  C10: \<open>checkArgs\<close> writes to the options object of its caller, and only to its
  \<open>type\<close>: once the search string has passed the first check, a type that is missing
  or is neither \<open>'video'\<close> nor \<open>'playlist'\<close> is set to \<open>'video'\<close> on the caller's own
  object; the fields \<open>limit\<close>, \<open>safeSearch\<close>, \<open>requestOptions\<close>, \<open>hl\<close>, \<open>gl\<close> and
  \<open>utcOffsetMinutes\<close> of that object keep their values, as do the \<open>RequestInit\<close> objects
  and every other options object that existed before the call. The corrections go to
  the copy: the limit of the returned options is the corrected one.
\<close>

theorem checkArgs_writes_back_type_only:
  assumes "p < length (options_store w)"
  shows "options_store (snd (checkArgs E searchString p w)) ! p =
           (if searchString \<noteq> [] \<and> \<not> valid_type (SearchOptions.type (options_store w ! p))
            then (options_store w ! p)\<lparr>SearchOptions.type := Some ''video''\<rparr>
            else options_store w ! p)
       \<and> SearchOptions.limit (options_store (snd (checkArgs E searchString p w)) ! p)
            = SearchOptions.limit (options_store w ! p)
       \<and> SearchOptions.safeSearch (options_store (snd (checkArgs E searchString p w)) ! p)
            = SearchOptions.safeSearch (options_store w ! p)
       \<and> SearchOptions.requestOptions (options_store (snd (checkArgs E searchString p w)) ! p)
            = SearchOptions.requestOptions (options_store w ! p)
       \<and> SearchOptions.hl (options_store (snd (checkArgs E searchString p w)) ! p)
            = SearchOptions.hl (options_store w ! p)
       \<and> SearchOptions.gl (options_store (snd (checkArgs E searchString p w)) ! p)
            = SearchOptions.gl (options_store w ! p)
       \<and> SearchOptions.utcOffsetMinutes (options_store (snd (checkArgs E searchString p w)) ! p)
            = SearchOptions.utcOffsetMinutes (options_store w ! p)
       \<and> take (length (init_store w)) (init_store (snd (checkArgs E searchString p w))) = init_store w
       \<and> (\<forall>i < length (options_store w). i \<noteq> p \<longrightarrow>
            options_store (snd (checkArgs E searchString p w)) ! i = options_store w ! i)
       \<and> (\<forall>opts w'. checkArgs E searchString p w = (Inr opts, w') \<longrightarrow>
            NormalizedOptions.limit opts = normalized_limit (SearchOptions.limit (options_store w ! p)))"
proof -
  have a: "options_store (snd (checkArgs E searchString p w)) ! p =
           (if searchString \<noteq> [] \<and> \<not> valid_type (SearchOptions.type (options_store w ! p))
            then (options_store w ! p)\<lparr>SearchOptions.type := Some ''video''\<rparr>
            else options_store w ! p)"
    using checkArgs_options_nth[OF assms, of E searchString p] by simp
  have b: "\<forall>i < length (options_store w). i \<noteq> p \<longrightarrow>
            options_store (snd (checkArgs E searchString p w)) ! i = options_store w ! i"
    by (simp add: checkArgs_options_nth)
  have c: "\<forall>opts w'. checkArgs E searchString p w = (Inr opts, w') \<longrightarrow>
            NormalizedOptions.limit opts = normalized_limit (SearchOptions.limit (options_store w ! p))"
    using checkArgs_limit[OF _ assms] by blast
  show ?thesis
    apply (intro conjI)
             apply (rule a)
            apply (simp add: a)
           apply (simp add: a)
          apply (simp add: a)
         apply (simp add: a)
        apply (simp add: a)
       apply (simp add: a)
      apply (rule checkArgs_init_store)
     apply (rule b)
    apply (rule c)
    done
qed

theorem checkArgs_writes_back_type_only_witness:
  "options_store (snd (checkArgs (sample_env []) ''test'' 0
      (start_world (no_options\<lparr>SearchOptions.limit := Some (Fin (- 1))\<rparr>)))) ! 0
     = no_options\<lparr>SearchOptions.limit := Some (Fin (- 1)), SearchOptions.type := Some ''video''\<rparr>
   \<and> map_sum id NormalizedOptions.limit
       (fst (checkArgs (sample_env []) ''test'' 0
          (start_world (no_options\<lparr>SearchOptions.limit := Some (Fin (- 1))\<rparr>)))) = Inr (Fin 10)"
proof -
  have l: "0 < length (options_store (start_world (no_options\<lparr>SearchOptions.limit := Some (Fin (- 1))\<rparr>)))"
    by (simp add: start_world_def)
  have r: "\<exists>opts w'. checkArgs (sample_env []) ''test'' 0
          (start_world (no_options\<lparr>SearchOptions.limit := Some (Fin (- 1))\<rparr>)) = (Inr opts, w')"
  proof -
    have "\<not> isl (fst (checkArgs (sample_env []) ''test'' 0
          (start_world (no_options\<lparr>SearchOptions.limit := Some (Fin (- 1))\<rparr>))))"
      by code_simp
    then show ?thesis
      by (cases "checkArgs (sample_env []) ''test'' 0
          (start_world (no_options\<lparr>SearchOptions.limit := Some (Fin (- 1))\<rparr>))";
          cases "fst (checkArgs (sample_env []) ''test'' 0
          (start_world (no_options\<lparr>SearchOptions.limit := Some (Fin (- 1))\<rparr>)))") auto
  qed
  then obtain opts w' where e: "checkArgs (sample_env []) ''test'' 0
          (start_world (no_options\<lparr>SearchOptions.limit := Some (Fin (- 1))\<rparr>)) = (Inr opts, w')"
    by blast
  from checkArgs_writes_back_type_only[OF l, of "sample_env []" "''test''"] e
  show ?thesis
    by (simp add: start_world_def no_options_def valid_type_def normalized_limit_def bad_limit_def
        DEFAULT_limit_def)
qed

section \<open>Properties of the request log\<close>

lemma posts_only_refl: "posts_only w w"
  by (auto simp add: posts_only_def intro!: exI[of _ "[]"])

lemma posts_only_trans: "posts_only w w1 \<Longrightarrow> posts_only w1 w2 \<Longrightarrow> posts_only w w2"
  unfolding posts_only_def
  apply (elim exE conjE)
  subgoal for ps qs
    by (rule exI[of _ "ps @ qs"]) simp
  done

lemma doPost_posts: "doPost E pl w = (r, w1) \<Longrightarrow> posts_only w w1"
  by (auto simp: doPost_def posts_only_def intro!: exI[of _ "[POST pl]"])

lemma snd_append_nested [simp]: "snd (append_nested k rw) = snd rw"
  by (simp add: append_nested_def split: sum.splits)

lemma parsePage2_posts_aux:
  assumes "parsePage2 E token ctx opts w = Some rw"
  shows "posts_only w (snd rw)"
  apply (rule parsePage2.raw_induct[where P = "\<lambda>E token ctx opts w rw. posts_only w (snd rw)", OF _ assms])
  subgoal premises prems for f E token ctx opts w rw
  proof -
    obtain r0 w1 where dp: "doPost E (payload [(''context'', ctx), (''continuation'', JStr token)]) w = (r0, w1)"
      by (cases "doPost E (payload [(''context'', ctx), (''continuation'', JStr token)]) w")
    have p1: "posts_only w w1" using dp by (rule doPost_posts)
    show ?thesis
      using prems(2) prems(1) p1 unfolding dp
      by (auto simp: Let_def bind_eq_Some_conv split: option.splits sum.splits if_splits intro: posts_only_trans posts_only_refl)
  qed
  done

lemma outcome_world_with_pagination [simp]: "outcome_world (with_pagination opts res its rw) = snd rw"
  by (simp add: with_pagination_def split: sum.splits)

lemma ytsr_finish_posts:
  "ytsr_finish E opts parsed w = Some out \<Longrightarrow> posts_only w (outcome_world out)"
  unfolding ytsr_finish_def
  by (auto simp: Let_def split: option.splits sum.splits if_splits prod.splits
      intro: posts_only_refl dest!: parsePage2_posts_aux)

lemma posts_only_CACHE: "posts_only (w\<lparr>CACHE := C\<rparr>) w' = posts_only w w'"
  by (simp add: posts_only_def)

lemma after_doPost:
  assumes "(case doPost E pl w3 of (None, w4) \<Rightarrow> A w4 | (Some j, w4) \<Rightarrow> B j w4) = Some out"
    and "\<And>w4. posts_only w3 w4 \<Longrightarrow> A w4 = Some out \<Longrightarrow> posts_only w3 (outcome_world out)"
    and "\<And>j w4. posts_only w3 w4 \<Longrightarrow> B j w4 = Some out \<Longrightarrow> posts_only w3 (outcome_world out)"
  shows "posts_only w3 (outcome_world out)"
proof -
  obtain r w4 where dp: "doPost E pl w3 = (r, w4)" by (cases "doPost E pl w3")
  have p: "posts_only w3 w4" using dp by (rule doPost_posts)
  show ?thesis using assms(1) assms(2)[OF p] assms(3)[OF p] unfolding dp
    by (cases r) auto
qed

lemma ytsr_search_posts:
  assumes "ytsr_search E s retries opts parsed w = Some out"
  shows "posts_only w (outcome_world out)"
proof (cases "NormalizedOptions.type opts = ''playlist''")
  case True
  show ?thesis
    using assms unfolding ytsr_search_def if_P[OF True]
    by (rule after_doPost)
       (auto split: if_splits dest: ytsr_finish_posts intro: posts_only_trans)
next
  case False
  show ?thesis
  proof (cases "NormalizedOptions.safeSearch opts \<or> \<not> truthy (json parsed)")
    case True
    show ?thesis
      using assms unfolding ytsr_search_def if_not_P[OF False] if_P[OF True]
      by (rule after_doPost)
         (auto split: if_splits dest: ytsr_finish_posts intro: posts_only_trans)
  next
    case b: False
    with False assms have "ytsr_finish E opts parsed w = Some out"
      by (simp add: ytsr_search_def)
    then show ?thesis by (rule ytsr_finish_posts)
  qed
qed

lemma fetch_results_page_cases:
  "fetch_results_page E opts w =
     (if NormalizedOptions.safeSearch opts \<and> CACHE_has (CACHE w) ''clientVersion''
         \<and> CACHE_has (CACHE w) ''playlistParams''
      then (Some \<lparr>json = JUndefined, context' = JUndefined\<rparr>, w)
      else (map_option (\<lambda>body. parseBody E body opts)
              (fetch_page E (length (requests w)) (NormalizedOptions.query opts)),
            w\<lparr>requests := requests w @ [GET (NormalizedOptions.query opts)]\<rparr>))"
  by (simp add: fetch_results_page_def shouldFetch_def)

lemma attempt_requests:
  assumes r: "retries \<noteq> 0"
    and c: "checkArgs E s p (if retries = 2 then clear_session w0 else w0) = (Inr opts, w1)"
    and a: "ytsr_attempt E s p retries w0 = Some out"
  shows "\<exists>ps. list_all is_POST ps \<and>
           requests (outcome_world out) =
             requests w0 @
             (if NormalizedOptions.safeSearch opts \<and> CACHE_has (CACHE w1) ''clientVersion''
                 \<and> CACHE_has (CACHE w1) ''playlistParams''
              then [] else [GET (NormalizedOptions.query opts)]) @ ps"
proof -
  let ?g = "(if NormalizedOptions.safeSearch opts \<and> CACHE_has (CACHE w1) ''clientVersion''
                 \<and> CACHE_has (CACHE w1) ''playlistParams''
              then [] else [GET (NormalizedOptions.query opts)])"
  have rq: "requests w1 = requests w0"
    using checkArgs_requests[of E s p "if retries = 2 then clear_session w0 else w0"] c
    by (simp add: clear_session_def split: if_splits)
  obtain pr w2 where f: "fetch_results_page E opts w1 = (pr, w2)"
    by (cases "fetch_results_page E opts w1")
  have rq2: "requests w2 = requests w0 @ ?g"
    using f rq by (auto simp: fetch_results_page_cases split: if_splits)
  show ?thesis
  proof (cases pr)
    case None
    then have "out = Return (Inl FetchError, w2)"
      using a r c f by (simp add: ytsr_attempt_def Let_def)
    then show ?thesis using rq2 by (intro exI[of _ "[]"]) simp
  next
    case (Some parsed0)
    then have "ytsr_search E s retries opts (fst (saveCache parsed0 opts (CACHE w2)))
                 (w2\<lparr>CACHE := snd (saveCache parsed0 opts (CACHE w2))\<rparr>) = Some out"
      using a r c f by (simp add: ytsr_attempt_def Let_def)
    from ytsr_search_posts[OF this] obtain ps where
      "list_all is_POST ps" "requests (outcome_world out) = requests w2 @ ps"
      by (auto simp: posts_only_def)
    then show ?thesis using rq2 by (intro exI[of _ ps]) simp
  qed
qed

text \<open>
  C1 (as amended): the fetch of the results page is skipped if and only if safe search
  is enabled and the cache holds both \<open>clientVersion\<close> and \<open>playlistParams\<close>; in every
  other case the page is fetched and its body parsed by \<open>parseBody\<close> before the attempt
  goes on. In the log of an attempt that has passed the argument check, the GET of the
  page is then the first request and all later requests are POSTs; when the fetch is
  skipped the attempt issues POSTs only.
\<close>

theorem initial_page_fetch_rule:
  "fetch_results_page E opts w =
     (if NormalizedOptions.safeSearch opts \<and> CACHE_has (CACHE w) ''clientVersion''
         \<and> CACHE_has (CACHE w) ''playlistParams''
      then (Some \<lparr>json = JUndefined, context' = JUndefined\<rparr>, w)
      else (map_option (\<lambda>body. parseBody E body opts)
              (fetch_page E (length (requests w)) (NormalizedOptions.query opts)),
            w\<lparr>requests := requests w @ [GET (NormalizedOptions.query opts)]\<rparr>))
   \<and> (\<forall>retries s p w0 w1 out.
        retries \<noteq> 0 \<longrightarrow>
        checkArgs E s p (if retries = 2 then clear_session w0 else w0) = (Inr opts, w1) \<longrightarrow>
        ytsr_attempt E s p retries w0 = Some out \<longrightarrow>
        (\<exists>ps. list_all is_POST ps \<and>
           requests (outcome_world out) =
             requests w0 @
             (if NormalizedOptions.safeSearch opts \<and> CACHE_has (CACHE w1) ''clientVersion''
                 \<and> CACHE_has (CACHE w1) ''playlistParams''
              then [] else [GET (NormalizedOptions.query opts)]) @ ps))"
  using fetch_results_page_cases attempt_requests by blast

text \<open>
  C1 as stated fails: with safe search disabled and both keys in the cache (the state of
  a process that has just started) the page is fetched.
\<close>

theorem warm_cache_still_fetches:
  "\<not> NormalizedOptions.safeSearch sample_options
   \<and> CACHE_has CACHE_initial ''clientVersion''
   \<and> CACHE_has CACHE_initial ''playlistParams''
   \<and> fst (checkArgs (sample_env []) ''test'' 0 (start_world no_options)) = Inr sample_options
   \<and> CACHE (snd (checkArgs (sample_env []) ''test'' 0 (start_world no_options))) = CACHE_initial
   \<and> snd (fetch_results_page (sample_env []) sample_options (start_world no_options))
       = (start_world no_options)\<lparr>requests := [GET [(''gl'', ''US''), (''hl'', ''en''), (''search_query'', ''test'')]]\<rparr>"
  by code_simp


theorem initial_page_fetch_rule_witness:
  "\<exists>ps. list_all is_POST ps \<and>
     requests (outcome_world (the (ytsr_attempt (sample_env sample_answers) ''test'' 0 3
                                     (start_world no_options))))
       = GET (NormalizedOptions.query sample_options) # ps"
proof -
  let ?E = "sample_env sample_answers"
  let ?W = "start_world no_options"
  have f: "fst (checkArgs ?E ''test'' 0 ?W) = Inr sample_options"
    by code_simp
  have c: "checkArgs ?E ''test'' 0 (if (3::nat) = 2 then clear_session ?W else ?W)
             = (Inr sample_options, snd (checkArgs ?E ''test'' 0 ?W))"
    using f by (simp add: prod_eq_iff)
  have n: "ytsr_attempt ?E ''test'' 0 3 ?W \<noteq> None"
    by code_simp
  then have a: "ytsr_attempt ?E ''test'' 0 3 ?W = Some (the (ytsr_attempt ?E ''test'' 0 3 ?W))"
    by simp
  have s: "\<not> NormalizedOptions.safeSearch sample_options"
    by (simp add: sample_options_def)
  have r: "requests ?W = []"
    by (simp add: start_world_def)
  from initial_page_fetch_rule[of ?E sample_options ?W, THEN conjunct2, rule_format, OF _ c a] s r
  show ?thesis by simp
qed

section \<open>Properties of the session parameter cache\<close>

lemma saveCache_empty:
  "snd (saveCache \<lparr>json = JUndefined, context' = JUndefined\<rparr> opts C) = C"
  by (simp add: saveCache_def Let_def getPlaylistParams_def getprop_def ParsedBody_value_def
      ParsedBodySchema_def member_def split: option.splits)

lemma saveCache_fst:
  "fst (saveCache parsed opts C) =
     (if \<not> truthy (path (context' parsed) [''client'', ''clientVersion''])
         \<and> CACHE_has C ''clientVersion''
      then parsed\<lparr>context' := buildPostContext (searchParams_get C ''clientVersion'') opts\<rparr>
      else parsed)"
  by (simp add: saveCache_def Let_def del: path.simps)

lemma saveCache_map_of:
  "map_of (snd (saveCache parsed opts C)) k =
     (if k = ''playlistParams''
         \<and> getPlaylistParams (fst (saveCache parsed opts C)) \<notin> {None, Some []}
      then getPlaylistParams (fst (saveCache parsed opts C))
      else if k = ''clientVersion''
              \<and> truthy (path (context' parsed) [''client'', ''clientVersion''])
      then Some (str_of (path (context' parsed) [''client'', ''clientVersion'']))
      else map_of C k)"
  by (auto simp add: saveCache_def Let_def update_conv' simp del: path.simps
      split: option.splits)

text \<open>
  C3 as stated fails: the cache of a process that has just started, before any request
  was issued, holds both keys.
\<close>

theorem cache_starts_populated:
  "CACHE_has (CACHE (start_world no_options)) ''clientVersion''
   \<and> CACHE_has (CACHE (start_world no_options)) ''playlistParams''
   \<and> requests (start_world no_options) = []"
  by code_simp

text \<open>
  C3 (as amended): the cache starts with a built-in value for each of the two keys.
  \<open>saveCache\<close> leaves the cache as it is when no page was fetched. Given a parsed page,
  it changes the cache at these two keys at most, and only to values read from the
  page: \<open>clientVersion\<close> becomes the client version of the page's context when that is
  non-empty, \<open>playlistParams\<close> becomes the playlist parameter that \<open>getPlaylistParams\<close>
  reads from the filter menu of the page when that is non-empty, and every other entry,
  and each of the two without such a value, keeps the value it had. The parsed page
  keeps its data; its context is replaced by one built from the cached client version
  when it has no client version of its own. So once the keys are deleted, a key is
  present again only if a later fetch of the results page stored it.
\<close>

theorem cache_lifecycle:
  "map_of CACHE_initial ''clientVersion'' = Some ''2.20240606.06.00''
   \<and> map_of CACHE_initial ''playlistParams'' = Some ''EgIQAw%3D%3D''
   \<and> snd (saveCache \<lparr>json = JUndefined, context' = JUndefined\<rparr> opts C) = C
   \<and> fst (saveCache parsed opts C) =
        (if \<not> truthy (path (context' parsed) [''client'', ''clientVersion''])
            \<and> CACHE_has C ''clientVersion''
         then parsed\<lparr>context' := buildPostContext (searchParams_get C ''clientVersion'') opts\<rparr>
         else parsed)
   \<and> map_of (snd (saveCache parsed opts C)) k =
        (if k = ''playlistParams''
            \<and> getPlaylistParams (fst (saveCache parsed opts C)) \<notin> {None, Some []}
         then getPlaylistParams (fst (saveCache parsed opts C))
         else if k = ''clientVersion''
                 \<and> truthy (path (context' parsed) [''client'', ''clientVersion''])
         then Some (str_of (path (context' parsed) [''client'', ''clientVersion'']))
         else map_of C k)"
  using saveCache_map_of[of parsed opts C k] saveCache_fst[of parsed opts C]
    saveCache_empty[of opts C]
  by (simp add: CACHE_initial_def del: path.simps)

theorem cache_lifecycle_witness:
  "map_of (snd (saveCache sample_page sample_options [(''other'', ''x'')])) ''clientVersion''
     = Some ''2.1''
   \<and> map_of (snd (saveCache sample_page sample_options [(''other'', ''x'')])) ''playlistParams''
     = Some ''EgIQAw''
   \<and> map_of (snd (saveCache sample_page sample_options [(''other'', ''x'')])) ''other''
     = Some ''x''"
proof -
  have a: "getPlaylistParams (fst (saveCache sample_page sample_options [(''other'', ''x'')]))
           = Some ''EgIQAw''"
    by code_simp
  have b: "path (context' sample_page) [''client'', ''clientVersion''] = JStr ''2.1''"
    by code_simp
  from cache_lifecycle[of sample_options "[(''other'', ''x'')]" sample_page "''clientVersion''"]
    cache_lifecycle[of sample_options "[(''other'', ''x'')]" sample_page "''playlistParams''"]
    cache_lifecycle[of sample_options "[(''other'', ''x'')]" sample_page "''other''"] a b
  show ?thesis by (simp add: str_of_def del: path.simps)
qed

section \<open>Properties of the response unwrapper\<close>

lemma zrecord_unknown: "zrecord ZUnknown kvs = Some kvs"
  by (induction kvs) auto

lemma zarray_records:
  "list_all plain_object its \<Longrightarrow> zarray (ZRecord ZUnknown) its = Some its"
proof (induction its)
  case Nil
  then show ?case by simp
next
  case (Cons x xs)
  then show ?case by (cases x) (auto simp: zrecord_unknown)
qed

lemma item_section_schema:
  "list_all plain_object its \<Longrightarrow>
   zparse YouTubeItemSectionRendererSchema (item_section_wrapper its) = Some (item_section_wrapper its)"
  by (simp add: YouTubeItemSectionRendererSchema_def item_section_wrapper_def member_def zarray_records)

lemma renderer_item_section:
  "list_all plain_object its \<Longrightarrow>
   zparse YouTubeRendererItemSchema (item_section_wrapper its) = Some (item_section_wrapper its)"
  by (simp add: YouTubeRendererItemSchema_def item_section_schema)

lemma continuation_schema:
  "zparse YouTubeContinuationItemRendererSchema (continuation_wrapper tok) = Some (continuation_wrapper tok)"
  by (simp add: YouTubeContinuationItemRendererSchema_def continuation_wrapper_def member_def)

lemma renderer_continuation:
  "zparse YouTubeRendererItemSchema (continuation_wrapper tok) = Some (continuation_wrapper tok)"
  by (simp add: YouTubeRendererItemSchema_def YouTubeItemSectionRendererSchema_def
      YouTubeRichItemRendererSchema_def YouTubeRichSectionRendererSchema_def
      continuation_wrapper_def member_def)

lemma has_key_alt: "has_key k (JObj kvs) = (map_of kvs k \<noteq> None)"
  by (simp add: has_key_def map_of_eq_None_iff)

lemma zarray_records_Some:
  "zarray (ZRecord ZUnknown) its = Some r \<Longrightarrow> r = its \<and> list_all plain_object its"
proof (induction its arbitrary: r)
  case Nil
  then show ?case by auto
next
  case (Cons x xs)
  then show ?case by (cases x) (auto simp: zrecord_unknown split: option.splits)
qed

lemma zarray_records_iff:
  "zarray (ZRecord ZUnknown) its = Some r \<longleftrightarrow> r = its \<and> list_all plain_object its"
  using zarray_records_Some zarray_records by blast

lemma member_absent: "k \<notin> fst ` set kvs \<Longrightarrow> member kvs k = JUndefined"
  by (simp add: member_def map_of_eq_None_iff[THEN iffD2])

lemma item_section_parse:
  assumes "zparse YouTubeItemSectionRendererSchema x = Some y"
  shows "\<exists>its. path x [''itemSectionRenderer'', ''contents''] = JArr its
           \<and> list_all plain_object its \<and> y = item_section_wrapper its"
  using assms
  by (auto simp: YouTubeItemSectionRendererSchema_def getprop_def item_section_wrapper_def
      zarray_records_iff split: json.splits option.splits if_splits)

lemma continuation_parse:
  "plain_object x \<Longrightarrow>
   zparse YouTubeContinuationItemRendererSchema x =
     (case token_of x of JStr tok \<Rightarrow> Some (continuation_wrapper tok) | _ \<Rightarrow> None)"
  by (cases x)
     (auto simp: YouTubeContinuationItemRendererSchema_def getprop_def continuation_wrapper_def
      token_of_def split: json.splits option.splits if_splits)

lemma object1_keys:
  "zparse (ZObject [(k, s)]) x = Some y \<Longrightarrow> has_key k' y \<Longrightarrow> k' = k"
  by (cases x) (auto simp: has_key_def split: option.splits if_splits)

lemma renderer_item_cases:
  "zparse YouTubeRendererItemSchema (JObj kvs) =
     (if is_item_section (JObj kvs) then zparse YouTubeItemSectionRendererSchema (JObj kvs)
      else if zparse YouTubeRichItemRendererSchema (JObj kvs) \<noteq> None
      then zparse YouTubeRichItemRendererSchema (JObj kvs)
      else if zparse YouTubeRichSectionRendererSchema (JObj kvs) \<noteq> None
      then zparse YouTubeRichSectionRendererSchema (JObj kvs)
      else Some (JObj (if has_key ''continuationItemRenderer'' (JObj kvs)
                       then [(''continuationItemRenderer'',
                              getprop (JObj kvs) ''continuationItemRenderer'')]
                       else [])))"
  using member_absent[of "''continuationItemRenderer''" kvs]
  by (auto simp: YouTubeRendererItemSchema_def is_item_section_def has_key_def getprop_def
      split: option.splits)


lemma renderer_item_nonobject:
  "\<not> plain_object x \<Longrightarrow> zparse YouTubeRendererItemSchema x = None"
  by (cases x)
     (simp_all add: YouTubeRendererItemSchema_def YouTubeItemSectionRendererSchema_def
      YouTubeRichItemRendererSchema_def YouTubeRichSectionRendererSchema_def)

lemma renderer_items_nonobject:
  "\<not> list_all plain_object cs \<Longrightarrow> zarray YouTubeRendererItemSchema cs = None"
proof (induction cs)
  case Nil
  then show ?case by simp
next
  case (Cons x cs)
  then show ?case
    by (cases "plain_object x") (auto simp: renderer_item_nonobject split: option.splits)
qed

text \<open>What the validation of an element leaves of it.\<close>

lemma renderer_item_parsed:
  assumes "plain_object x"
  shows "\<exists>y. zparse YouTubeRendererItemSchema x = Some y
           \<and> has_key ''itemSectionRenderer'' y = is_item_section x
           \<and> (is_item_section x \<longrightarrow> zparse YouTubeItemSectionRendererSchema x = Some y)
           \<and> has_key ''continuationItemRenderer'' y = is_continuation x
           \<and> (is_continuation x \<longrightarrow>
                  y = JObj [(''continuationItemRenderer'', getprop x ''continuationItemRenderer'')])"
proof -
  from assms obtain kvs where x: "x = JObj kvs" by (cases x) auto
  show ?thesis
  proof (cases "is_item_section x")
    case True
    then obtain y where y: "zparse YouTubeItemSectionRendererSchema x = Some y"
      by (auto simp: is_item_section_def)
    from item_section_parse[OF y] obtain its where "y = item_section_wrapper its" by blast
    then have "has_key ''itemSectionRenderer'' y" "\<not> has_key ''continuationItemRenderer'' y"
      by (simp_all add: item_section_wrapper_def has_key_def)
    then show ?thesis
      using True y by (simp add: x renderer_item_cases is_continuation_def)
  next
    case nis: False
    then have n1: "zparse YouTubeItemSectionRendererSchema x = None"
      by (simp add: is_item_section_def)
    show ?thesis
    proof (cases "zparse YouTubeRichItemRendererSchema x")
      case (Some y)
      then have "\<not> has_key ''itemSectionRenderer'' y" "\<not> has_key ''continuationItemRenderer'' y"
        using object1_keys[of "''richItemRenderer''" _ x y]
        by (auto simp: YouTubeRichItemRendererSchema_def)
      then show ?thesis
        using nis Some by (simp add: x renderer_item_cases is_continuation_def)
    next
      case n2: None
      show ?thesis
      proof (cases "zparse YouTubeRichSectionRendererSchema x")
        case (Some y)
        then have "\<not> has_key ''itemSectionRenderer'' y" "\<not> has_key ''continuationItemRenderer'' y"
          using object1_keys[of "''richSectionRenderer''" _ x y]
          by (auto simp: YouTubeRichSectionRendererSchema_def)
        then show ?thesis
          using nis n2 Some by (simp add: x renderer_item_cases is_continuation_def)
      next
        case n3: None
        show ?thesis
          using nis n1 n2 n3
          by (cases "''continuationItemRenderer'' \<in> fst ` set kvs")
             (simp_all add: x renderer_item_cases is_continuation_def has_key_def)
      qed
    qed
  qed
qed

lemma renderer_items_parsed:
  assumes "list_all plain_object cs"
  shows "\<exists>ds. zarray YouTubeRendererItemSchema cs = Some ds
           \<and> find (has_key ''itemSectionRenderer'') ds
               = Option.bind (find is_item_section cs) (zparse YouTubeItemSectionRendererSchema)
           \<and> find (has_key ''continuationItemRenderer'') ds
               = map_option
                   (\<lambda>c. JObj [(''continuationItemRenderer'', getprop c ''continuationItemRenderer'')])
                   (find is_continuation cs)"
  using assms
proof (induction cs)
  case Nil
  then show ?case by simp
next
  case (Cons x cs)
  then obtain ds where ds: "zarray YouTubeRendererItemSchema cs = Some ds"
    and f1: "find (has_key ''itemSectionRenderer'') ds
               = Option.bind (find is_item_section cs) (zparse YouTubeItemSectionRendererSchema)"
    and f2: "find (has_key ''continuationItemRenderer'') ds
               = map_option
                   (\<lambda>c. JObj [(''continuationItemRenderer'', getprop c ''continuationItemRenderer'')])
                   (find is_continuation cs)"
    by auto
  from Cons.prems have "plain_object x" by simp
  from renderer_item_parsed[OF this] obtain y where
    y: "zparse YouTubeRendererItemSchema x = Some y"
    and k1: "has_key ''itemSectionRenderer'' y = is_item_section x"
    and v1: "is_item_section x \<longrightarrow> zparse YouTubeItemSectionRendererSchema x = Some y"
    and k2: "has_key ''continuationItemRenderer'' y = is_continuation x"
    and v2: "is_continuation x \<longrightarrow>
                  y = JObj [(''continuationItemRenderer'', getprop x ''continuationItemRenderer'')]"
    by blast
  show ?case
    using ds f1 f2 y k1 v1 k2 v2 by auto
qed


lemma sections_of_document:
  assumes "path doc [''sectionListRenderer'', ''contents''] = JArr cs"
  shows "\<exists>kvs kvs2. doc = JObj kvs \<and> member kvs ''sectionListRenderer'' = JObj kvs2
           \<and> member kvs2 ''contents'' = JArr cs"
  using assms
  by (cases doc; simp add: getprop_def split: json.splits)

lemma primary_contents_sections:
  assumes "path doc [''sectionListRenderer'', ''contents''] = JArr cs"
    and "zarray YouTubeRendererItemSchema cs = Some ds"
  shows "zparse YouTubePrimaryContentsSchema doc = Some (section_list ds)"
proof -
  from sections_of_document[OF assms(1)] obtain kvs kvs2 where
    "doc = JObj kvs" "member kvs ''sectionListRenderer'' = JObj kvs2"
    "member kvs2 ''contents'' = JArr cs"
    by blast
  then show ?thesis
    by (simp add: YouTubePrimaryContentsSchema_def section_list_def assms(2))
qed

lemma primary_contents_invalid:
  assumes "path doc [''sectionListRenderer'', ''contents''] = JArr cs"
    and "zarray YouTubeRendererItemSchema cs = None"
    and "\<not> has_key ''richGridRenderer'' doc"
  shows "zparse YouTubePrimaryContentsSchema doc = None"
proof -
  from sections_of_document[OF assms(1)] obtain kvs kvs2 where
    d: "doc = JObj kvs" "member kvs ''sectionListRenderer'' = JObj kvs2"
    "member kvs2 ''contents'' = JArr cs"
    by blast
  from assms(3) d(1) have "member kvs ''richGridRenderer'' = JUndefined"
    by (simp add: has_key_def member_absent)
  with d show ?thesis
    by (simp add: YouTubePrimaryContentsSchema_def assms(2))
qed

lemma token_of_parsed:
  "has_key ''continuationItemRenderer'' c \<Longrightarrow>
   token_of (JObj [(''continuationItemRenderer'', getprop c ''continuationItemRenderer'')])
   = token_of c"
  by (cases c) (simp_all add: token_of_def getprop_def member_def has_key_def)

lemma find_filter_same:
  "(\<And>x. P x \<Longrightarrow> Q x) \<Longrightarrow> find P (filter Q xs) = find P xs"
  by (induction xs) auto

lemma find_filter_none: "find P (filter (\<lambda>x. \<not> P x) xs) = None"
  by (induction xs) auto

lemma parseWrapper_sections:
  assumes doc: "path doc [''sectionListRenderer'', ''contents''] = JArr cs"
    and objs: "list_all plain_object cs"
  shows "parseWrapper doc =
           \<lparr>rawItems =
              (case find is_item_section cs of
                 None \<Rightarrow> []
               | Some s \<Rightarrow> elems (path s [''itemSectionRenderer'', ''contents''])),
            continuation =
              (case find is_continuation cs of
                 None \<Rightarrow> JNull
               | Some c \<Rightarrow>
                   (case token_of c of JStr tok \<Rightarrow> continuation_wrapper tok | _ \<Rightarrow> JNull))\<rparr>"
proof -
  from renderer_items_parsed[OF objs] obtain ds where
    ds: "zarray YouTubeRendererItemSchema cs = Some ds"
    and f1: "find (has_key ''itemSectionRenderer'') ds
               = Option.bind (find is_item_section cs) (zparse YouTubeItemSectionRendererSchema)"
    and f2: "find (has_key ''continuationItemRenderer'') ds
               = map_option
                   (\<lambda>c. JObj [(''continuationItemRenderer'', getprop c ''continuationItemRenderer'')])
                   (find is_continuation cs)"
    by blast
  have p: "zparse YouTubePrimaryContentsSchema doc = Some (section_list ds)"
    by (rule primary_contents_sections[OF doc ds])
  have e: "elems (path (section_list ds) [''sectionListRenderer'', ''contents'']) = ds"
    by (simp add: section_list_def getprop_def member_def elems_def)
  have k: "has_key ''sectionListRenderer'' (section_list ds)"
    by (simp add: section_list_def has_key_def)
  have r: "(case find (has_key ''itemSectionRenderer'') ds of
              None \<Rightarrow> []
            | Some itemSection \<Rightarrow>
                (case zparse YouTubeItemSectionRendererSchema itemSection of
                   None \<Rightarrow> []
                 | Some parsed \<Rightarrow> elems (path parsed [''itemSectionRenderer'', ''contents''])))
           = (case find is_item_section cs of
                 None \<Rightarrow> []
               | Some s \<Rightarrow> elems (path s [''itemSectionRenderer'', ''contents'']))"
  proof (cases "find is_item_section cs")
    case None
    then show ?thesis by (simp add: f1)
  next
    case (Some s)
    then have "is_item_section s" by (auto simp: find_Some_iff)
    then obtain y where y: "zparse YouTubeItemSectionRendererSchema s = Some y"
      by (auto simp: is_item_section_def)
    from item_section_parse[OF y] obtain its where
      i: "path s [''itemSectionRenderer'', ''contents''] = JArr its" "list_all plain_object its"
      "y = item_section_wrapper its"
      by blast
    have "elems (path (item_section_wrapper its) [''itemSectionRenderer'', ''contents'']) = its"
      by (simp add: item_section_wrapper_def getprop_def member_def elems_def)
    then show ?thesis
      using Some y i item_section_schema[OF i(2)]
      by (simp add: f1 elems_def del: path.simps)
  qed
  have c: "find_continuation ds
           = (case find is_continuation cs of
                 None \<Rightarrow> JNull
               | Some c \<Rightarrow>
                   (case token_of c of JStr tok \<Rightarrow> continuation_wrapper tok | _ \<Rightarrow> JNull))"
  proof (cases "find is_continuation cs")
    case None
    then show ?thesis by (simp add: find_continuation_def f2)
  next
    case (Some c)
    then have "is_continuation c" by (auto simp: find_Some_iff)
    then have "has_key ''continuationItemRenderer'' c" by (simp add: is_continuation_def)
    from token_of_parsed[OF this] show ?thesis
      using Some
      by (simp add: find_continuation_def f2 continuation_parse split: json.splits)
  qed
  show ?thesis
    by (simp add: parseWrapper_def Let_def p e k r c del: path.simps)
qed

lemma parseWrapper_junk:
  assumes "path doc [''sectionListRenderer'', ''contents''] = JArr cs"
    and "\<not> list_all plain_object cs" and "\<not> has_key ''richGridRenderer'' doc"
  shows "parseWrapper doc = \<lparr>rawItems = [], continuation = JNull\<rparr>"
  using primary_contents_invalid[OF assms(1) renderer_items_nonobject[OF assms(2)] assms(3)]
  by (simp add: parseWrapper_def)

lemma filter_continuation_sections:
  "find is_item_section (filter (\<lambda>x. \<not> is_continuation x) cs) = find is_item_section cs"
  by (rule find_filter_same) (simp add: is_item_section_def is_continuation_def)

text \<open>
  C8 as stated fails: a section list holds an item-section wrapper with one raw item and
  a well-formed continuation wrapper, behind an element with the key
  \<open>continuationItemRenderer\<close> and no token. The unwrapper reads the first element with
  that key only, and returns \<open>null\<close> for the continuation.
\<close>

theorem first_continuation_element_decides:
  "parseWrapper (section_list [JObj [(''continuationItemRenderer'', JObj [])],
                               item_section_wrapper [video_item ''a''],
                               continuation_wrapper ''t1''])
   = \<lparr>rawItems = [video_item ''a''], continuation = JNull\<rparr>"
  by code_simp

text \<open>
  C8 (as amended): take an initial-page document with a section list. When every
  element of the list is an object, \<open>parseWrapper\<close> returns the raw items of the first
  element that is a well-formed item section (none when there is none) and the
  continuation of the first continuation element: its token wrapper when that element
  carries a token, \<open>null\<close> when it does not or when there is no such element. So when
  the first item section holds the \<open>N\<close> raw items \<open>its\<close> and the first continuation
  element carries a token, the result is exactly these \<open>N\<close> items and a continuation
  that is not \<open>null\<close> and carries the token; and for a document with the same section
  list without its continuation elements it is the same \<open>N\<close> items and \<open>null\<close>. When
  some element of the list is not an object (and the document has no rich grid), the
  result has no items and no continuation.
\<close>

theorem parseWrapper_item_section:
  "path doc [''sectionListRenderer'', ''contents''] = JArr cs \<longrightarrow>
     (list_all plain_object cs \<longrightarrow>
        rawItems (parseWrapper doc)
          = (case find is_item_section cs of
               None \<Rightarrow> []
             | Some s \<Rightarrow> elems (path s [''itemSectionRenderer'', ''contents'']))
        \<and> continuation (parseWrapper doc)
          = (case find is_continuation cs of
               None \<Rightarrow> JNull
             | Some c \<Rightarrow>
                 (case token_of c of JStr tok \<Rightarrow> continuation_wrapper tok | _ \<Rightarrow> JNull))
        \<and> (find is_item_section cs = Some s
             \<and> path s [''itemSectionRenderer'', ''contents''] = JArr its
             \<and> find is_continuation cs = Some c
             \<and> token_of c = JStr tok \<longrightarrow>
               parseWrapper doc = \<lparr>rawItems = its, continuation = continuation_wrapper tok\<rparr>
               \<and> length (rawItems (parseWrapper doc)) = length its
               \<and> continuation (parseWrapper doc) \<noteq> JNull
               \<and> token_of (continuation (parseWrapper doc)) = JStr tok
               \<and> (path doc' [''sectionListRenderer'', ''contents'']
                     = JArr (filter (\<lambda>x. \<not> is_continuation x) cs) \<longrightarrow>
                    parseWrapper doc' = \<lparr>rawItems = its, continuation = JNull\<rparr>)))
     \<and> (\<not> list_all plain_object cs \<and> \<not> has_key ''richGridRenderer'' doc \<longrightarrow>
          parseWrapper doc = \<lparr>rawItems = [], continuation = JNull\<rparr>)"
proof (intro impI conjI)
  assume doc: "path doc [''sectionListRenderer'', ''contents''] = JArr cs"
  {
    assume objs: "list_all plain_object cs"
    note w = parseWrapper_sections[OF doc objs]
    show "rawItems (parseWrapper doc)
          = (case find is_item_section cs of
               None \<Rightarrow> []
             | Some s \<Rightarrow> elems (path s [''itemSectionRenderer'', ''contents'']))"
      by (simp add: w del: path.simps)
    show "continuation (parseWrapper doc)
          = (case find is_continuation cs of
               None \<Rightarrow> JNull
             | Some c \<Rightarrow>
                 (case token_of c of JStr tok \<Rightarrow> continuation_wrapper tok | _ \<Rightarrow> JNull))"
      by (simp add: w del: path.simps)
    assume h: "find is_item_section cs = Some s
             \<and> path s [''itemSectionRenderer'', ''contents''] = JArr its
             \<and> find is_continuation cs = Some c
             \<and> token_of c = JStr tok"
    have t: "token_of (continuation_wrapper tok) = JStr tok"
      by (simp add: token_of_def continuation_wrapper_def getprop_def member_def)
    have n: "continuation_wrapper tok \<noteq> JNull"
      by (simp add: continuation_wrapper_def)
    show a: "parseWrapper doc = \<lparr>rawItems = its, continuation = continuation_wrapper tok\<rparr>"
      using h by (simp add: w elems_def del: path.simps)
    show "length (rawItems (parseWrapper doc)) = length its"
      by (simp add: a)
    show "continuation (parseWrapper doc) \<noteq> JNull"
      by (simp add: a n)
    show "token_of (continuation (parseWrapper doc)) = JStr tok"
      by (simp add: a t)
    assume doc': "path doc' [''sectionListRenderer'', ''contents'']
                     = JArr (filter (\<lambda>x. \<not> is_continuation x) cs)"
    have objs': "list_all plain_object (filter (\<lambda>x. \<not> is_continuation x) cs)"
      using objs by (simp add: list_all_iff)
    show "parseWrapper doc' = \<lparr>rawItems = its, continuation = JNull\<rparr>"
      using h
      by (simp add: parseWrapper_sections[OF doc' objs'] filter_continuation_sections
          find_filter_none elems_def del: path.simps)
  }
  assume "\<not> list_all plain_object cs \<and> \<not> has_key ''richGridRenderer'' doc"
  then show "parseWrapper doc = \<lparr>rawItems = [], continuation = JNull\<rparr>"
    using parseWrapper_junk[OF doc] by blast
qed


theorem parseWrapper_item_section_witness:
  "parseWrapper (page_document page_sections)
     = \<lparr>rawItems = [video_item ''a'', video_item ''b''], continuation = continuation_wrapper ''t1''\<rparr>
   \<and> parseWrapper (page_document [hd page_sections])
     = \<lparr>rawItems = [video_item ''a'', video_item ''b''], continuation = JNull\<rparr>
   \<and> parseWrapper (page_document (JNull # page_sections))
     = \<lparr>rawItems = [], continuation = JNull\<rparr>"
proof -
  have d: "path (page_document page_sections) [''sectionListRenderer'', ''contents'']
           = JArr page_sections"
    by code_simp
  have o: "list_all plain_object page_sections"
    by code_simp
  have h: "find is_item_section page_sections = Some (hd page_sections)
           \<and> path (hd page_sections) [''itemSectionRenderer'', ''contents'']
             = JArr [video_item ''a'', video_item ''b'']
           \<and> find is_continuation page_sections = Some (page_sections ! 1)
           \<and> token_of (page_sections ! 1) = JStr ''t1''"
    by code_simp
  have d': "path (page_document [hd page_sections]) [''sectionListRenderer'', ''contents'']
            = JArr (filter (\<lambda>x. \<not> is_continuation x) page_sections)"
    by code_simp
  note t = parseWrapper_item_section[where doc = "page_document page_sections"
      and cs = page_sections and s = "hd page_sections"
      and its = "[video_item ''a'', video_item ''b'']" and c = "page_sections ! 1"
      and tok = "''t1''" and doc' = "page_document [hd page_sections]",
      rule_format, OF d, THEN conjunct1, rule_format, OF o, THEN conjunct2, THEN conjunct2,
      rule_format, OF h]
  have 1: "parseWrapper (page_document page_sections)
     = \<lparr>rawItems = [video_item ''a'', video_item ''b''], continuation = continuation_wrapper ''t1''\<rparr>"
    using t by simp
  have 2: "parseWrapper (page_document [hd page_sections])
     = \<lparr>rawItems = [video_item ''a'', video_item ''b''], continuation = JNull\<rparr>"
    using t d' by simp
  have j: "path (page_document (JNull # page_sections)) [''sectionListRenderer'', ''contents'']
           = JArr (JNull # page_sections)"
    by code_simp
  have n: "\<not> list_all plain_object (JNull # page_sections)
           \<and> \<not> has_key ''richGridRenderer'' (page_document (JNull # page_sections))"
    by code_simp
  from parseWrapper_item_section[where doc = "page_document (JNull # page_sections)"
      and cs = "JNull # page_sections", rule_format, OF j, THEN conjunct2, rule_format, OF n]
  have 3: "parseWrapper (page_document (JNull # page_sections))
     = \<lparr>rawItems = [], continuation = JNull\<rparr>" .
  from 1 2 3 show ?thesis by simp
qed

section \<open>Properties of the pagination walker\<close>

lemma bind_Some_map: "Option.bind x (\<lambda>y. Some (f y)) = map_option f x"
  by (cases x) auto

text \<open>The equation of \<open>parsePage2\<close>, in terms of what a step sends and reads.\<close>

lemma parsePage2_unfold:
  "parsePage2 E token ctx opts w =
     (case fetch_api E (length (requests w)) (continuation_payload ctx token) of
        None \<Rightarrow>
          Some (Inl FetchError, w\<lparr>requests := requests w @ [POST (continuation_payload ctx token)]\<rparr>)
      | Some j \<Rightarrow>
          (case read_batch E j of
             None \<Rightarrow>
               Some (Inr [], w\<lparr>requests := requests w @ [POST (continuation_payload ctx token)]\<rparr>)
           | Some (rs, nt) \<Rightarrow>
               if \<not> truthy nt
                  \<or> num_less (num_minus (NormalizedOptions.limit opts)
                                (of_count (length (kept_items opts rs)))) (Fin 1)
               then Some (Inr (kept_items opts rs),
                          w\<lparr>requests := requests w @ [POST (continuation_payload ctx token)]\<rparr>)
               else map_option (append_nested (kept_items opts rs))
                      (parsePage2 E (str_of nt) ctx
                         (opts\<lparr>NormalizedOptions.limit :=
                                 num_minus (NormalizedOptions.limit opts)
                                   (of_count (length (kept_items opts rs)))\<rparr>)
                         (w\<lparr>requests := requests w @ [POST (continuation_payload ctx token)]\<rparr>))))"
  apply (subst parsePage2.simps)
  apply (simp add: doPost_def read_batch_def kept_items_def continuation_payload_def Let_def
      bind_Some_map split: option.splits sum.splits)
  done

lemma append_nested_Inr: "\<exists>xs. fst (append_nested k rw) = Inr xs"
  by (simp add: append_nested_def split: sum.splits)

lemma parsePage2_rejects_iff:
  assumes "parsePage2 E token ctx opts w = Some (r, w')"
  shows "(\<exists>e. r = Inl e) = (fetch_api E (length (requests w)) (continuation_payload ctx token) = None)"
proof (cases "fetch_api E (length (requests w)) (continuation_payload ctx token)")
  case None
  then show ?thesis using assms by (auto simp add: parsePage2_unfold)
next
  case (Some j)
  have "\<exists>xs. r = Inr xs"
  proof (cases "read_batch E j")
    case None
    then show ?thesis using assms Some by (auto simp add: parsePage2_unfold[of E token])
  next
    case b: (Some a)
    obtain rs nt where a: "a = (rs, nt)" by (cases a)
    show ?thesis
      using assms Some b a append_nested_Inr[of "kept_items opts rs"]
      by (auto simp add: parsePage2_unfold[of E token] split: if_splits) (metis fst_conv)
  qed
  then show ?thesis using Some by auto
qed


lemma parsePage2_Inl:
  assumes "parsePage2 E token ctx opts w = Some (Inl e, w')"
  shows "e = FetchError \<and> fetch_api E (length (requests w)) (continuation_payload ctx token) = None"
proof -
  have n: "fetch_api E (length (requests w)) (continuation_payload ctx token) = None"
    using parsePage2_rejects_iff[OF assms] by simp
  then show ?thesis using assms by (simp add: parsePage2_unfold[of E token])
qed

lemma ytsr_finish_Inl:
  assumes "ytsr_finish E opts parsed w = Some (Return (Inl e, w'))"
  shows "\<exists>pc est. parseSearchResponse (json parsed) = Some (pc, est)
           \<and> (map_err (parseItem E) (rawItems (parseWrapper pc)) = Inl e
              \<or> e = FetchError
                \<and> fetch_api E (length (requests w))
                     (continuation_payload (context' parsed)
                        (str_of (token_of (continuation (parseWrapper pc))))) = None)"
proof -
  from assms obtain pc est where ps: "parseSearchResponse (json parsed) = Some (pc, est)"
    by (auto simp: ytsr_finish_def split: if_splits option.splits)
  show ?thesis
  proof (cases "map_err (parseItem E) (rawItems (parseWrapper pc))")
    case (Inl e')
    then have "e' = e" using assms ps by (simp add: ytsr_finish_def split: if_splits)
    then show ?thesis using ps Inl by simp
  next
    case (Inr rs)
    from assms ps Inr obtain rw where
      pp: "parsePage2 E (str_of (token_of (continuation (parseWrapper pc)))) (context' parsed)
             (opts\<lparr>NormalizedOptions.limit :=
                num_minus (NormalizedOptions.limit opts)
                  (of_count (length (limit_filter (NormalizedOptions.limit opts)
                     (type_filter (NormalizedOptions.type opts) rs))))\<rparr>) w = Some rw"
      and wp: "with_pagination opts (estimated est)
                 (limit_filter (NormalizedOptions.limit opts)
                     (type_filter (NormalizedOptions.type opts) rs)) rw = Return (Inl e, w')"
      by (auto simp: ytsr_finish_def Let_def split: if_splits)
    from wp have "rw = (Inl e, w')"
      by (cases rw) (auto simp: with_pagination_def split: sum.splits)
    with pp parsePage2_Inl show ?thesis using ps by blast
  qed
qed

text \<open>
  C2 as stated fails: the first page of a search carries one video and a continuation
  token, and the request of the first continuation step is rejected. The request stands
  before the \<open>try\<close> block of \<open>parsePage2\<close> and the walk is awaited outside every \<open>try\<close> in
  \<open>ytsr\<close>, so the whole search rejects.
\<close>

theorem first_continuation_failure_rejects:
  "map_option fst
     (ytsr (sample_env [None, Some (search_response [item_section_wrapper [video_item ''a''],
                                                      continuation_wrapper ''t1''])])
        ''test'' 0 3 (start_world no_options))
   = Some (Inl FetchError)"
  by code_simp

lemma limit_filter_enumerate:
  "map snd (filter (\<lambda>ix. fst ix < k) (enumerate n xs)) = take (k - n) xs"
proof (induction xs arbitrary: n)
  case Nil
  then show ?case by simp
next
  case (Cons x xs)
  show ?case
  proof (cases "n < k")
    case True
    then have "k - n = Suc (k - Suc n)" by simp
    then show ?thesis using True Cons.IH[of "Suc n"] by simp
  next
    case False
    then show ?thesis using Cons.IH[of "Suc n"] by simp
  qed
qed

lemma limit_filter_take: "limit_filter (of_count k) xs = take k xs"
  using limit_filter_enumerate[of k 0 xs]
  by (simp add: limit_filter_def of_count_def)

lemma type_filter_nonnull: "filter (\<lambda>i. i \<noteq> JNull) (type_filter T rs) = type_filter T rs"
  by (induction rs) (auto simp: type_filter_def)

lemma take_type_filter_nonnull:
  "filter (\<lambda>i. i \<noteq> JNull) (take k (type_filter T rs)) = take k (type_filter T rs)"
proof -
  have "\<forall>x \<in> set (take k (type_filter T rs)). x \<noteq> JNull"
    by (auto simp: type_filter_def dest!: in_set_takeD)
  then show ?thesis by (simp add: filter_id_conv)
qed

lemma kept_items_count:
  "NormalizedOptions.limit opts = of_count k \<Longrightarrow>
   kept_items opts rs = take k (type_filter (NormalizedOptions.type opts) rs)"
  by (simp add: kept_items_def limit_filter_take)

lemma of_count_minus: "m \<le> k \<Longrightarrow> num_minus (of_count k) (of_count m) = of_count (k - m)"
  by (simp add: of_count_def of_nat_diff)

lemma of_count_less_1: "num_less (of_count k) (Fin 1) = (k = 0)"
  by (simp add: of_count_def)

text \<open>The rule by which a step stops or goes on, with the batch it has read.\<close>

lemma parsePage2_stops:
  assumes "fetch_api E (length (requests w)) (continuation_payload ctx token) = Some j"
    and "read_batch E j = Some (rs, nt)"
    and "\<not> truthy nt
         \<or> num_less (num_minus (NormalizedOptions.limit opts)
                       (of_count (length (kept_items opts rs)))) (Fin 1)"
  shows "parsePage2 E token ctx opts w =
           Some (Inr (kept_items opts rs),
                 w\<lparr>requests := requests w @ [POST (continuation_payload ctx token)]\<rparr>)"
  using assms by (subst parsePage2_unfold) auto

lemma parsePage2_goes_on:
  assumes "fetch_api E (length (requests w)) (continuation_payload ctx token) = Some j"
    and "read_batch E j = Some (rs, nt)"
    and "truthy nt"
    and "\<not> num_less (num_minus (NormalizedOptions.limit opts)
                       (of_count (length (kept_items opts rs)))) (Fin 1)"
  shows "parsePage2 E token ctx opts w =
           map_option (append_nested (kept_items opts rs))
             (parsePage2 E (str_of nt) ctx
                (opts\<lparr>NormalizedOptions.limit :=
                        num_minus (NormalizedOptions.limit opts)
                          (of_count (length (kept_items opts rs)))\<rparr>)
                (w\<lparr>requests := requests w @ [POST (continuation_payload ctx token)]\<rparr>))"
  using assms by (subst parsePage2_unfold) auto

lemma three_pages:
  assumes l: "NormalizedOptions.limit opts = of_count 10"
    and p1: "fetch_api E (length (requests w)) (continuation_payload ctx t1) = Some j1"
      "read_batch E j1 = Some (rs1, JStr t2)" "t2 \<noteq> []"
      "length (type_filter (NormalizedOptions.type opts) rs1) = 4"
    and p2: "fetch_api E (length (requests w) + 1) (continuation_payload ctx t2) = Some j2"
      "read_batch E j2 = Some (rs2, JStr t3)" "t3 \<noteq> []"
      "length (type_filter (NormalizedOptions.type opts) rs2) = 4"
    and p3: "fetch_api E (length (requests w) + 2) (continuation_payload ctx t3) = Some j3"
      "read_batch E j3 = Some (rs3, nt3)"
      "length (type_filter (NormalizedOptions.type opts) rs3) = 4"
  shows "parsePage2 E t1 ctx opts w =
           Some (Inr (type_filter (NormalizedOptions.type opts) rs1
                      @ type_filter (NormalizedOptions.type opts) rs2
                      @ take 2 (type_filter (NormalizedOptions.type opts) rs3)),
                 w\<lparr>requests := requests w @ [POST (continuation_payload ctx t1),
                                               POST (continuation_payload ctx t2),
                                               POST (continuation_payload ctx t3)]\<rparr>)"
proof -
  let ?T = "NormalizedOptions.type opts"
  let ?w1 = "w\<lparr>requests := requests w @ [POST (continuation_payload ctx t1)]\<rparr>"
  let ?w2 = "?w1\<lparr>requests := requests ?w1 @ [POST (continuation_payload ctx t2)]\<rparr>"
  let ?w3 = "?w2\<lparr>requests := requests ?w2 @ [POST (continuation_payload ctx t3)]\<rparr>"
  let ?o1 = "opts\<lparr>NormalizedOptions.limit := of_count 6\<rparr>"
  let ?o2 = "opts\<lparr>NormalizedOptions.limit := of_count 2\<rparr>"
  have k1: "kept_items opts rs1 = type_filter ?T rs1"
    using kept_items_count[OF l, of rs1] p1(4) by simp
  have k2: "kept_items ?o1 rs2 = type_filter ?T rs2"
    using kept_items_count[of ?o1 6 rs2] p2(4) by simp
  have k3: "kept_items ?o2 rs3 = take 2 (type_filter ?T rs3)"
    using kept_items_count[of ?o2 2 rs3] by simp
  have s3: "parsePage2 E t3 ctx ?o2 ?w2 = Some (Inr (take 2 (type_filter ?T rs3)), ?w3)"
    using parsePage2_stops[of E ?w2 ctx t3 j3 rs3 nt3 ?o2] p3
    by (simp add: k3 of_count_minus of_count_less_1)
  have s2: "parsePage2 E t2 ctx ?o1 ?w1 =
              Some (Inr (type_filter ?T rs2 @ take 2 (type_filter ?T rs3)), ?w3)"
    using parsePage2_goes_on[of E ?w1 ctx t2 j2 rs2 "JStr t3" ?o1] p2 s3
    by (simp add: k2 of_count_minus of_count_less_1 append_nested_def take_type_filter_nonnull str_of_def)
  have s1: "parsePage2 E t1 ctx opts w =
              Some (Inr (type_filter ?T rs1 @ type_filter ?T rs2 @ take 2 (type_filter ?T rs3)), ?w3)"
    using parsePage2_goes_on[of E w ctx t1 j1 rs1 "JStr t2" opts] p1 s2
    by (simp add: k1 l of_count_minus of_count_less_1 append_nested_def take_type_filter_nonnull
        type_filter_nonnull str_of_def)
  then show ?thesis by simp
qed


text \<open>
  C5: let the first three continuation requests be answered by batches with four items
  of the requested type each, the first two (at least) with a token for the next page,
  and let the remaining limit be 10. The walker returns 10 items (the four of the first
  batch, the four of the second, the first two of the third) and issues exactly three
  requests, whether or not the third batch has a token. In general a step that has read
  its batch returns the items it kept, with no further request, as soon as the batch
  has no token or the remaining limit is below 1; otherwise it requests the next page.
\<close>

theorem pagination_stops_at_limit:
  "(NormalizedOptions.limit opts = of_count 10 \<longrightarrow>
    fetch_api E (length (requests w)) (continuation_payload ctx t1) = Some j1 \<longrightarrow>
    read_batch E j1 = Some (rs1, JStr t2) \<longrightarrow> t2 \<noteq> [] \<longrightarrow>
    length (type_filter (NormalizedOptions.type opts) rs1) = 4 \<longrightarrow>
    fetch_api E (length (requests w) + 1) (continuation_payload ctx t2) = Some j2 \<longrightarrow>
    read_batch E j2 = Some (rs2, JStr t3) \<longrightarrow> t3 \<noteq> [] \<longrightarrow>
    length (type_filter (NormalizedOptions.type opts) rs2) = 4 \<longrightarrow>
    fetch_api E (length (requests w) + 2) (continuation_payload ctx t3) = Some j3 \<longrightarrow>
    read_batch E j3 = Some (rs3, nt3) \<longrightarrow>
    length (type_filter (NormalizedOptions.type opts) rs3) = 4 \<longrightarrow>
      parsePage2 E t1 ctx opts w =
        Some (Inr (type_filter (NormalizedOptions.type opts) rs1
                   @ type_filter (NormalizedOptions.type opts) rs2
                   @ take 2 (type_filter (NormalizedOptions.type opts) rs3)),
              w\<lparr>requests := requests w @ [POST (continuation_payload ctx t1),
                                            POST (continuation_payload ctx t2),
                                            POST (continuation_payload ctx t3)]\<rparr>)
      \<and> length (type_filter (NormalizedOptions.type opts) rs1
                 @ type_filter (NormalizedOptions.type opts) rs2
                 @ take 2 (type_filter (NormalizedOptions.type opts) rs3)) = 10)
   \<and> (fetch_api E (length (requests w)) (continuation_payload ctx token) = Some j \<longrightarrow>
       read_batch E j = Some (rs, nt) \<longrightarrow>
         (if \<not> truthy nt
             \<or> num_less (num_minus (NormalizedOptions.limit opts)
                           (of_count (length (kept_items opts rs)))) (Fin 1)
          then parsePage2 E token ctx opts w =
                 Some (Inr (kept_items opts rs),
                       w\<lparr>requests := requests w @ [POST (continuation_payload ctx token)]\<rparr>)
          else parsePage2 E token ctx opts w =
                 map_option (append_nested (kept_items opts rs))
                   (parsePage2 E (str_of nt) ctx
                      (opts\<lparr>NormalizedOptions.limit :=
                              num_minus (NormalizedOptions.limit opts)
                                (of_count (length (kept_items opts rs)))\<rparr>)
                      (w\<lparr>requests := requests w @ [POST (continuation_payload ctx token)]\<rparr>))))"
proof -
  have b: "fetch_api E (length (requests w)) (continuation_payload ctx token) = Some j \<Longrightarrow>
       read_batch E j = Some (rs, nt) \<Longrightarrow>
         (if \<not> truthy nt
             \<or> num_less (num_minus (NormalizedOptions.limit opts)
                           (of_count (length (kept_items opts rs)))) (Fin 1)
          then parsePage2 E token ctx opts w =
                 Some (Inr (kept_items opts rs),
                       w\<lparr>requests := requests w @ [POST (continuation_payload ctx token)]\<rparr>)
          else parsePage2 E token ctx opts w =
                 map_option (append_nested (kept_items opts rs))
                   (parsePage2 E (str_of nt) ctx
                      (opts\<lparr>NormalizedOptions.limit :=
                              num_minus (NormalizedOptions.limit opts)
                                (of_count (length (kept_items opts rs)))\<rparr>)
                      (w\<lparr>requests := requests w @ [POST (continuation_payload ctx token)]\<rparr>)))"
    using parsePage2_stops[of E w ctx token j rs nt opts]
      parsePage2_goes_on[of E w ctx token j rs nt opts]
    by (cases "\<not> truthy nt
             \<or> num_less (num_minus (NormalizedOptions.limit opts)
                           (of_count (length (kept_items opts rs)))) (Fin 1)") simp_all
  show ?thesis
    apply (intro conjI impI)
    subgoal by (rule three_pages) assumption+
    subgoal by simp
    subgoal by (rule b)
    done
qed


lemma read_batch_sample:
  "map_option snd (read_batch E j) = Some t \<Longrightarrow>
   map_option (\<lambda>b. length (type_filter T (fst b))) (read_batch E j) = Some n \<Longrightarrow>
   \<exists>rs. read_batch E j = Some (rs, t) \<and> length (type_filter T rs) = n"
  by (cases "read_batch E j") auto

lemma read_batch_sample_kept:
  "map_option snd (read_batch E j) = Some t \<Longrightarrow>
   map_option (\<lambda>b. length (kept_items opts (fst b))) (read_batch E j) = Some n \<Longrightarrow>
   \<exists>rs. read_batch E j = Some (rs, t) \<and> length (kept_items opts rs) = n"
  by (cases "read_batch E j") auto

theorem pagination_stops_at_limit_witness:
  "count_and_log (parsePage2 (sample_env three_batches) ''t1'' JNull sample_options
                    (start_world no_options))
     = Some (Inr 10, [POST (continuation_payload JNull ''t1''),
                      POST (continuation_payload JNull ''t2''),
                      POST (continuation_payload JNull ''t3'')])
   \<and> count_and_log (parsePage2 (sample_env [Some last_batch]) ''t1'' JNull sample_options
                    (start_world no_options))
     = Some (Inr 1, [POST (continuation_payload JNull ''t1'')])"
proof -
  have second: "count_and_log (parsePage2 (sample_env [Some last_batch]) ''t1'' JNull sample_options
                    (start_world no_options))
     = Some (Inr 1, [POST (continuation_payload JNull ''t1'')])"
  proof -
    let ?E = "sample_env [Some last_batch]"
    let ?W = "start_world no_options"
    have r: "requests ?W = []"
      by (simp add: start_world_def)
    have f: "fetch_api ?E (length (requests ?W)) (continuation_payload JNull ''t1'') = Some last_batch"
      by (simp add: sample_env_def r)
    have "map_option snd (read_batch ?E last_batch) = Some JNull"
      "map_option (\<lambda>b. length (kept_items sample_options (fst b))) (read_batch ?E last_batch) = Some 1"
      by code_simp+
    from read_batch_sample_kept[OF this] obtain rs where
      b: "read_batch ?E last_batch = Some (rs, JNull)" "length (kept_items sample_options rs) = 1"
      by blast
    from pagination_stops_at_limit[where E = ?E and w = ?W and ctx = JNull and token = "''t1''"
        and j = last_batch and rs = rs and nt = JNull and opts = sample_options,
        THEN conjunct2, rule_format, OF f b(1)]
    have "parsePage2 ?E ''t1'' JNull sample_options ?W =
            Some (Inr (kept_items sample_options rs),
                  ?W\<lparr>requests := requests ?W @ [POST (continuation_payload JNull ''t1'')]\<rparr>)"
      by simp
    then show ?thesis using b(2) r by (simp add: count_and_log_def)
  qed
  have first: "count_and_log (parsePage2 (sample_env three_batches) ''t1'' JNull sample_options
                    (start_world no_options))
     = Some (Inr 10, [POST (continuation_payload JNull ''t1''),
                      POST (continuation_payload JNull ''t2''),
                      POST (continuation_payload JNull ''t3'')])"
  proof -
  let ?E = "sample_env three_batches"
  let ?W = "start_world no_options"
  have l: "NormalizedOptions.limit sample_options = of_count 10"
    by (simp add: sample_options_def of_count_def)
  have T: "NormalizedOptions.type sample_options = ''video''"
    by (simp add: sample_options_def)
  have r: "requests ?W = []"
    by (simp add: start_world_def)
  have f1: "fetch_api ?E (length (requests ?W)) (continuation_payload JNull ''t1'')
            = Some (batch_of_four ''a'' ''t2'')"
    by (simp add: sample_env_def three_batches_def r)
  have f2: "fetch_api ?E (length (requests ?W) + 1) (continuation_payload JNull ''t2'')
            = Some (batch_of_four ''b'' ''t3'')"
    by (simp add: sample_env_def three_batches_def r)
  have f3: "fetch_api ?E (length (requests ?W) + 2) (continuation_payload JNull ''t3'')
            = Some (batch_of_four ''c'' ''t4'')"
    by (simp add: sample_env_def three_batches_def r)
  have "map_option snd (read_batch ?E (batch_of_four ''a'' ''t2'')) = Some (JStr ''t2'')"
    "map_option (\<lambda>b. length (type_filter ''video'' (fst b))) (read_batch ?E (batch_of_four ''a'' ''t2'')) = Some 4"
    by code_simp+
  from read_batch_sample[OF this] obtain rs1 where
    b1: "read_batch ?E (batch_of_four ''a'' ''t2'') = Some (rs1, JStr ''t2'')"
    "length (type_filter ''video'' rs1) = 4" by blast
  have "map_option snd (read_batch ?E (batch_of_four ''b'' ''t3'')) = Some (JStr ''t3'')"
    "map_option (\<lambda>b. length (type_filter ''video'' (fst b))) (read_batch ?E (batch_of_four ''b'' ''t3'')) = Some 4"
    by code_simp+
  from read_batch_sample[OF this] obtain rs2 where
    b2: "read_batch ?E (batch_of_four ''b'' ''t3'') = Some (rs2, JStr ''t3'')"
    "length (type_filter ''video'' rs2) = 4" by blast
  have "map_option snd (read_batch ?E (batch_of_four ''c'' ''t4'')) = Some (JStr ''t4'')"
    "map_option (\<lambda>b. length (type_filter ''video'' (fst b))) (read_batch ?E (batch_of_four ''c'' ''t4'')) = Some 4"
    by code_simp+
  from read_batch_sample[OF this] obtain rs3 where
    b3: "read_batch ?E (batch_of_four ''c'' ''t4'') = Some (rs3, JStr ''t4'')"
    "length (type_filter ''video'' rs3) = 4" by blast
  have n: "''t2'' \<noteq> []" "''t3'' \<noteq> []" by simp_all
  from pagination_stops_at_limit[where opts = sample_options and E = ?E and w = ?W and ctx = JNull
      and ?t1.0 = "''t1''" and ?t2.0 = "''t2''" and ?t3.0 = "''t3''" and ?nt3.0 = "JStr ''t4''"
      and ?rs1.0 = rs1 and ?rs2.0 = rs2 and ?rs3.0 = rs3
      and ?j1.0 = "batch_of_four ''a'' ''t2''" and ?j2.0 = "batch_of_four ''b'' ''t3''"
      and ?j3.0 = "batch_of_four ''c'' ''t4''" and token = "''t1''"
      and j = "batch_of_four ''a'' ''t2''" and rs = rs1 and nt = "JStr ''t2''",
      THEN conjunct1, rule_format, OF l f1 _ n(1) _ f2 _ n(2) _ f3]
    b1 b2 b3 T
  have "parsePage2 ?E ''t1'' JNull sample_options ?W =
        Some (Inr (type_filter ''video'' rs1 @ type_filter ''video'' rs2 @ take 2 (type_filter ''video'' rs3)),
              ?W\<lparr>requests := requests ?W @ [POST (continuation_payload JNull ''t1''),
                                            POST (continuation_payload JNull ''t2''),
                                            POST (continuation_payload JNull ''t3'')]\<rparr>)"
    by simp
  then show ?thesis
    using b1(2) b2(2) b3(2) r by (simp add: count_and_log_def)
  qed
  from first second show ?thesis by simp
qed

subsection \<open>Failures in the pagination\<close>

lemma by_type_append: "by_type t (xs @ ys) = by_type t xs @ by_type t ys"
  by (simp add: by_type_def)

lemma ytsr_finish_Inr:
  assumes "ytsr_finish E opts parsed w = Some (Return (Inr res, w'))"
  shows "\<exists>pc est rs zs. parseSearchResponse (json parsed) = Some (pc, est)
           \<and> map_err (parseItem E) (rawItems (parseWrapper pc)) = Inr rs
           \<and> SearchResult.items res = by_type (NormalizedOptions.type opts) (kept_items opts rs) @ zs"
proof -
  from assms obtain pc est where ps: "parseSearchResponse (json parsed) = Some (pc, est)"
    by (auto simp: ytsr_finish_def split: if_splits option.splits)
  from assms ps obtain rs where m: "map_err (parseItem E) (rawItems (parseWrapper pc)) = Inr rs"
    by (cases "map_err (parseItem E) (rawItems (parseWrapper pc))")
       (auto simp: ytsr_finish_def split: if_splits)
  have "\<exists>zs. SearchResult.items res = by_type (NormalizedOptions.type opts) (kept_items opts rs) @ zs"
  proof (cases "\<not> truthy (token_of (continuation (parseWrapper pc)))
                \<or> num_less (num_minus (NormalizedOptions.limit opts)
                     (of_count (length (kept_items opts rs)))) (Fin 1)")
    case True
    then show ?thesis using assms ps m
      by (auto simp: ytsr_finish_def Let_def kept_items_def split: if_splits)
  next
    case False
    with assms ps m obtain rw where
      wp: "with_pagination opts (estimated est) (kept_items opts rs) rw = Return (Inr res, w')"
      by (auto simp: ytsr_finish_def Let_def kept_items_def split: if_splits)
    then show ?thesis
      by (cases "fst rw") (auto simp: with_pagination_def by_type_append)
  qed
  then show ?thesis using ps m by blast
qed

text \<open>
  C2 (as amended): a continuation step rejects only when its own request is rejected,
  and then with the error of the transport. When its request is answered, the step
  returns: the empty list when the answer is not a continuation batch; the empty list
  when \<open>parseItem\<close> throws on an item of the batch, with no further request; its own
  items when the walk stops there; and otherwise, with the result of the next step, the
  empty list when that step rejects and its own items followed by the items of that
  step that are not \<open>null\<close> when it returns. So every failure below the first request
  of the walk is caught in a step and empties the list of that step. A search that has
  its first page rejects only when \<open>parseItem\<close> throws on the first page or the
  request of the first continuation step is rejected; when the search returns, its
  items begin with those of the first page, so a failure of the pagination only
  shortens the list.
\<close>

theorem pagination_failures_caught:
  "(parsePage2 E token ctx opts w = Some (r, w') \<longrightarrow>
      ((\<exists>e. r = Inl e) = (fetch_api E (length (requests w)) (continuation_payload ctx token) = None))
      \<and> (\<forall>e. r = Inl e \<longrightarrow> e = FetchError))
   \<and> (fetch_api E (length (requests w)) (continuation_payload ctx token) = Some j \<longrightarrow>
        (parsePage2Response j = None \<longrightarrow>
           parsePage2 E token ctx opts w
           = Some (Inr [], w\<lparr>requests := requests w @ [POST (continuation_payload ctx token)]\<rparr>))
      \<and> (parsePage2Response j = Some batch
           \<and> map_err (parseItem E) (rawItems (parsePage2Wrapper batch)) = Inl e \<longrightarrow>
           parsePage2 E token ctx opts w
           = Some (Inr [], w\<lparr>requests := requests w @ [POST (continuation_payload ctx token)]\<rparr>))
      \<and> (read_batch E j = Some (rs, nt) \<longrightarrow>
           (\<not> truthy nt
            \<or> num_less (num_minus (NormalizedOptions.limit opts)
                          (of_count (length (kept_items opts rs)))) (Fin 1) \<longrightarrow>
              parsePage2 E token ctx opts w
              = Some (Inr (kept_items opts rs),
                      w\<lparr>requests := requests w @ [POST (continuation_payload ctx token)]\<rparr>))
         \<and> (truthy nt
            \<and> \<not> num_less (num_minus (NormalizedOptions.limit opts)
                            (of_count (length (kept_items opts rs)))) (Fin 1)
            \<and> parsePage2 E (str_of nt) ctx
                 (opts\<lparr>NormalizedOptions.limit :=
                         num_minus (NormalizedOptions.limit opts)
                           (of_count (length (kept_items opts rs)))\<rparr>)
                 (w\<lparr>requests := requests w @ [POST (continuation_payload ctx token)]\<rparr>)
               = Some (nested, w2) \<longrightarrow>
              parsePage2 E token ctx opts w
              = Some ((case nested of
                         Inl e' \<Rightarrow> Inr []
                       | Inr ys \<Rightarrow> Inr (kept_items opts rs @ filter (\<lambda>i. i \<noteq> JNull) ys)), w2))))
   \<and> (ytsr_finish E opts0 parsed w0 = Some (Return (Inl e0, w1)) \<longrightarrow>
        (\<exists>pc est. parseSearchResponse (json parsed) = Some (pc, est)
           \<and> (map_err (parseItem E) (rawItems (parseWrapper pc)) = Inl e0
              \<or> e0 = FetchError
                \<and> fetch_api E (length (requests w0))
                     (continuation_payload (context' parsed)
                        (str_of (token_of (continuation (parseWrapper pc))))) = None)))
   \<and> (ytsr_finish E opts0 parsed w0 = Some (Return (Inr res, w1)) \<longrightarrow>
        (\<exists>pc est rs0 zs. parseSearchResponse (json parsed) = Some (pc, est)
           \<and> map_err (parseItem E) (rawItems (parseWrapper pc)) = Inr rs0
           \<and> SearchResult.items res
             = by_type (NormalizedOptions.type opts0) (kept_items opts0 rs0) @ zs))"
proof -
  have a: "parsePage2 E token ctx opts w = Some (r, w') \<Longrightarrow>
      (\<exists>e. r = Inl e) = (fetch_api E (length (requests w)) (continuation_payload ctx token) = None)"
    by (rule parsePage2_rejects_iff)
  have c: "parsePage2 E token ctx opts w = Some (r, w') \<Longrightarrow> \<forall>e. r = Inl e \<longrightarrow> e = FetchError"
    using parsePage2_Inl by blast
  have d: "fetch_api E (length (requests w)) (continuation_payload ctx token) = Some j \<Longrightarrow>
           parsePage2Response j = None \<Longrightarrow>
           parsePage2 E token ctx opts w
           = Some (Inr [], w\<lparr>requests := requests w @ [POST (continuation_payload ctx token)]\<rparr>)"
    by (simp add: parsePage2_unfold[of E token] read_batch_def)
  have e: "fetch_api E (length (requests w)) (continuation_payload ctx token) = Some j \<Longrightarrow>
           parsePage2Response j = Some batch
           \<and> map_err (parseItem E) (rawItems (parsePage2Wrapper batch)) = Inl e \<Longrightarrow>
           parsePage2 E token ctx opts w
           = Some (Inr [], w\<lparr>requests := requests w @ [POST (continuation_payload ctx token)]\<rparr>)"
    by (simp add: parsePage2_unfold[of E token] read_batch_def)
  have f: "fetch_api E (length (requests w)) (continuation_payload ctx token) = Some j \<Longrightarrow>
           read_batch E j = Some (rs, nt) \<Longrightarrow>
           \<not> truthy nt
            \<or> num_less (num_minus (NormalizedOptions.limit opts)
                          (of_count (length (kept_items opts rs)))) (Fin 1) \<Longrightarrow>
              parsePage2 E token ctx opts w
              = Some (Inr (kept_items opts rs),
                      w\<lparr>requests := requests w @ [POST (continuation_payload ctx token)]\<rparr>)"
    by (simp add: parsePage2_unfold[of E token])
  have g: "fetch_api E (length (requests w)) (continuation_payload ctx token) = Some j \<Longrightarrow>
           read_batch E j = Some (rs, nt) \<Longrightarrow>
           truthy nt
            \<and> \<not> num_less (num_minus (NormalizedOptions.limit opts)
                            (of_count (length (kept_items opts rs)))) (Fin 1)
            \<and> parsePage2 E (str_of nt) ctx
                 (opts\<lparr>NormalizedOptions.limit :=
                         num_minus (NormalizedOptions.limit opts)
                           (of_count (length (kept_items opts rs)))\<rparr>)
                 (w\<lparr>requests := requests w @ [POST (continuation_payload ctx token)]\<rparr>)
               = Some (nested, w2) \<Longrightarrow>
              parsePage2 E token ctx opts w
              = Some ((case nested of
                         Inl e' \<Rightarrow> Inr []
                       | Inr ys \<Rightarrow> Inr (kept_items opts rs @ filter (\<lambda>i. i \<noteq> JNull) ys)), w2)"
    by (simp add: parsePage2_unfold[of E token] append_nested_def split: sum.splits)
  show ?thesis
    apply (intro conjI impI)
    subgoal by (rule a)
    subgoal using c by blast
    subgoal by (rule d)
    subgoal by (rule e)
    subgoal by (rule f)
    subgoal by (rule g)
    subgoal by (rule ytsr_finish_Inl)
    subgoal by (rule ytsr_finish_Inr)
    done
qed


theorem pagination_failures_caught_witness:
  "parsePage2 (sample_env broken_batch) ''t1'' JNull sample_options (start_world no_options)
     = Some (Inr [], (start_world no_options)
               \<lparr>requests := [POST (continuation_payload JNull ''t1'')]\<rparr>)
   \<and> isl (map_err (parseItem (sample_env broken_batch)) [video_item ''a'', broken_item])
   \<and> map_option fst
       (parsePage2 (sample_env failing_second_step) ''t1'' JNull sample_options
          (start_world no_options))
     = Some (Inr [])
   \<and> fetch_api (sample_env failing_second_step) 0 (continuation_payload JNull ''t1'') \<noteq> None
   \<and> fetch_api (sample_env failing_second_step) 1 (continuation_payload JNull ''t2'') = None
   \<and> map_option (\<lambda>out. fst (case out of Return rw \<Rightarrow> rw | Retry w \<Rightarrow> (Inl FetchError, w)))
       (ytsr_finish (sample_env []) sample_options first_page (start_world no_options))
     = Some (Inl FetchError)
   \<and> fetch_api (sample_env []) 0 (continuation_payload JNull ''t1'') = None"
proof -
  let ?W = "start_world no_options"
  have l: "length (requests ?W) = 0" and r: "requests ?W = []"
    by (simp_all add: start_world_def)
  have throws: "parsePage2 (sample_env broken_batch) ''t1'' JNull sample_options ?W
     = Some (Inr [], ?W\<lparr>requests := [POST (continuation_payload JNull ''t1'')]\<rparr>)"
  proof -
    let ?E = "sample_env broken_batch"
    let ?J = "page2_response [item_section_wrapper [video_item ''a'', broken_item],
                              continuation_wrapper ''t2'']"
    have f: "fetch_api ?E (length (requests ?W)) (continuation_payload JNull ''t1'') = Some ?J"
      by (simp add: sample_env_def broken_batch_def r)
    have "parsePage2Response ?J \<noteq> None"
      by code_simp
    then obtain batch where b: "parsePage2Response ?J = Some batch"
      by blast
    have "map_err (parseItem ?E) (rawItems (parsePage2Wrapper (the (parsePage2Response ?J))))
          = Inl (TypeError ''Invalid URL'')"
      by code_simp
    then have m: "map_err (parseItem ?E) (rawItems (parsePage2Wrapper batch))
          = Inl (TypeError ''Invalid URL'')"
      by (simp add: b)
    from pagination_failures_caught[where E = ?E and w = ?W and ctx = JNull and token = "''t1''"
        and j = ?J and batch = batch and e = "TypeError ''Invalid URL''" and opts = sample_options,
        THEN conjunct2, THEN conjunct1, rule_format, OF f, THEN conjunct2, THEN conjunct1,
        rule_format, OF conjI[OF b m]]
    show ?thesis by (simp add: r)
  qed
  have raw: "isl (map_err (parseItem (sample_env broken_batch)) [video_item ''a'', broken_item])"
    by code_simp
  have nested: "map_option fst
       (parsePage2 (sample_env failing_second_step) ''t1'' JNull sample_options ?W)
     = Some (Inr [])"
  proof -
    let ?E = "sample_env failing_second_step"
    let ?J = "page2_response [item_section_wrapper [video_item ''a''], continuation_wrapper ''t2'']"
    let ?W1 = "?W\<lparr>requests := requests ?W @ [POST (continuation_payload JNull ''t1'')]\<rparr>"
    have f: "fetch_api ?E (length (requests ?W)) (continuation_payload JNull ''t1'') = Some ?J"
      by (simp add: sample_env_def failing_second_step_def r)
    have "map_option snd (read_batch ?E ?J) = Some (JStr ''t2'')"
      "map_option (\<lambda>b. length (kept_items sample_options (fst b))) (read_batch ?E ?J) = Some 1"
      by code_simp+
    from read_batch_sample_kept[OF this] obtain rs where
      b: "read_batch ?E ?J = Some (rs, JStr ''t2'')" "length (kept_items sample_options rs) = 1"
      by blast
    have lim: "NormalizedOptions.limit sample_options = Fin 10"
      by (simp add: sample_options_def)
    have o: "sample_options\<lparr>NormalizedOptions.limit :=
               num_minus (NormalizedOptions.limit sample_options)
                 (of_count (length (kept_items sample_options rs)))\<rparr>
             = sample_options\<lparr>NormalizedOptions.limit := Fin 9\<rparr>"
      by (simp add: b(2) lim of_count_def)
    have "map_option fst
            (parsePage2 ?E ''t2'' JNull (sample_options\<lparr>NormalizedOptions.limit := Fin 9\<rparr>)
               ((start_world no_options)\<lparr>requests := [POST (continuation_payload JNull ''t1'')]\<rparr>))
          = Some (Inl FetchError)"
      by code_simp
    then obtain w2 where
      n: "parsePage2 ?E ''t2'' JNull (sample_options\<lparr>NormalizedOptions.limit := Fin 9\<rparr>)
               ((start_world no_options)\<lparr>requests := [POST (continuation_payload JNull ''t1'')]\<rparr>)
          = Some (Inl FetchError, w2)"
      by auto
    have c: "truthy (JStr ''t2'')
            \<and> \<not> num_less (num_minus (NormalizedOptions.limit sample_options)
                            (of_count (length (kept_items sample_options rs)))) (Fin 1)
            \<and> parsePage2 ?E (str_of (JStr ''t2'')) JNull
                 (sample_options\<lparr>NormalizedOptions.limit :=
                         num_minus (NormalizedOptions.limit sample_options)
                           (of_count (length (kept_items sample_options rs)))\<rparr>)
                 ?W1
               = Some (Inl FetchError, w2)"
      using n unfolding o by (simp add: r str_of_def b(2) lim of_count_def)
    from pagination_failures_caught[where E = ?E and w = ?W and ctx = JNull and token = "''t1''"
        and j = ?J and rs = rs and nt = "JStr ''t2''" and opts = sample_options
        and nested = "Inl FetchError" and ?w2.0 = w2,
        THEN conjunct2, THEN conjunct1, rule_format, OF f, THEN conjunct2, THEN conjunct2,
        rule_format, OF b(1), THEN conjunct2, rule_format, OF c]
    show ?thesis by simp
  qed
  have f0: "fetch_api (sample_env failing_second_step) 0 (continuation_payload JNull ''t1'') \<noteq> None"
    "fetch_api (sample_env failing_second_step) 1 (continuation_payload JNull ''t2'') = None"
    by code_simp+
  have g: "ytsr_finish (sample_env []) sample_options first_page ?W
           = Some (Return (Inl FetchError,
               ?W\<lparr>requests := [POST (continuation_payload JNull ''t1'')]\<rparr>))"
    by code_simp
  have p: "parseSearchResponse (json first_page)
           = Some (section_list [item_section_wrapper [video_item ''a''], continuation_wrapper ''t1''],
                   JStr ''1000'')"
    by code_simp
  have m: "map_err (parseItem (sample_env []))
             (rawItems (parseWrapper (section_list [item_section_wrapper [video_item ''a''],
                                                     continuation_wrapper ''t1''])))
           \<noteq> Inl FetchError"
    by code_simp
  have t: "str_of (token_of (continuation (parseWrapper (section_list
             [item_section_wrapper [video_item ''a''], continuation_wrapper ''t1''])))) = ''t1''"
    by code_simp
  have c: "context' first_page = JNull"
    by (simp add: first_page_def)
  from pagination_failures_caught[where E = "sample_env []" and ?opts0.0 = sample_options
      and parsed = first_page and ?w0.0 = ?W and ?e0.0 = FetchError
      and ?w1.0 = "?W\<lparr>requests := [POST (continuation_payload JNull ''t1'')]\<rparr>",
      THEN conjunct2, THEN conjunct2, THEN conjunct1, rule_format, OF g]
  have 2: "fetch_api (sample_env []) 0 (continuation_payload JNull ''t1'') = None"
    using p m t c l by auto
  from throws raw nested f0 2 g show ?thesis by simp
qed

end
